theory Spec2Isabelle
  imports Complex_Main "HOL-Library.Sublist"
begin

section \<open>The to-do list of \<^verbatim>\<open>src/todolist.py\<close>\<close>

text \<open>
  A shallow embedding of the two classes of \<^verbatim>\<open>todolist.py\<close>, \<^verbatim>\<open>Task\<close> and
  \<^verbatim>\<open>ToDoList\<close>.

  Python is dynamically typed, and \<^verbatim>\<open>load\<close> hands to \<^verbatim>\<open>Task.from_dict\<close> and on to the
  constructor whatever \<^verbatim>\<open>json.load\<close> read from the file. So the fields of a task, the
  arguments of the constructor and the content of a file are values of the type \<open>json\<close>
  below: the Python values that \<^verbatim>\<open>json.load\<close> returns. The parameters that only a Python
  caller supplies carry the types the source annotates: \<^verbatim>\<open>index: int\<close>, and
  \<^verbatim>\<open>Optional[str]\<close>, \<^verbatim>\<open>Optional[int]\<close> for the parameters of \<^verbatim>\<open>edit_task\<close>. Python's \<^verbatim>\<open>int\<close>
  is unbounded, hence \<^typ>\<open>int\<close>. A \<^typ>\<open>string\<close> is a list of 8-bit characters, so a
  Python string is read as its UTF-8 encoding.

  Python objects are mutated in place; the model passes the state explicitly: a method
  that mutates \<^verbatim>\<open>self\<close> returns the new state beside its return value. An exception that
  leaves a method is a value of \<open>error\<close>. The wall clock (\<^verbatim>\<open>datetime.now().isoformat()\<close>)
  is an argument: every read of the clock is a string handed to the function that reads it.

  A store owns its tasks: each position of \<^verbatim>\<open>self.tasks\<close> holds a \<^verbatim>\<open>Task\<close> object of its own,
  as the specification assumes and as the command loop and \<^verbatim>\<open>load\<close> ensure (both add only
  tasks they have just constructed). The task at a position is therefore its value, and
  an assignment to a field of the object at a position is an update of that position.
  Lists are values too: \<^verbatim>\<open>list(self.tasks)\<close> and a list comprehension build a new list.
\<close>

subsection \<open>Python values\<close>

text \<open>
  What \<^verbatim>\<open>json.load\<close> returns: \<^verbatim>\<open>None\<close>, a \<^verbatim>\<open>bool\<close>, an \<^verbatim>\<open>int\<close>, a \<^verbatim>\<open>float\<close>, a \<^verbatim>\<open>str\<close>, a
  \<^verbatim>\<open>list\<close> or a \<^verbatim>\<open>dict\<close> with string keys. A finite float is the real number it denotes
  (the code only compares floats with integers, which Python does exactly); \<^verbatim>\<open>json.load\<close>
  also reads \<^verbatim>\<open>Infinity\<close>, \<^verbatim>\<open>-Infinity\<close> and \<^verbatim>\<open>NaN\<close>. A dictionary is the list of its items
  in order.
\<close>

datatype pyfloat = Finite real | PosInf | NegInf | NaN

datatype json =
    JNull
  | JBool bool
  | JInt int
  | JFloat pyfloat
  | JStr string
  | JArr "json list"
  | JObj "(string \<times> json) list"

text \<open>The exceptions that the modelled code can raise; a \<^verbatim>\<open>KeyError\<close> reports the key.\<close>

datatype error =
    KeyError json
  | TypeError
  | FileNotFoundError
  | JSONDecodeError
  | UnicodeDecodeError

text \<open>
  The item of a dictionary under a key. Where several items of the list have the key, the
  last one counts, as \<^verbatim>\<open>json.load\<close> keeps the last of repeated members.
\<close>

definition dict_get :: "(string \<times> json) list \<Rightarrow> string \<Rightarrow> json option" where
  "dict_get kvs k = map_of (rev kvs) k"

text \<open>\<^verbatim>\<open>data[k]\<close> raises \<^verbatim>\<open>KeyError\<close> on an absent key; \<^verbatim>\<open>data.get(k, d)\<close> returns \<open>d\<close> there.\<close>

definition subscript :: "(string \<times> json) list \<Rightarrow> string \<Rightarrow> error + json" where
  "subscript kvs k = (case dict_get kvs k of None \<Rightarrow> Inl (KeyError (JStr k)) | Some v \<Rightarrow> Inr v)"

definition get_default :: "(string \<times> json) list \<Rightarrow> string \<Rightarrow> json \<Rightarrow> json" where
  "get_default kvs k d = (case dict_get kvs k of None \<Rightarrow> d | Some v \<Rightarrow> v)"

text \<open>
  The comparison \<open>v > k\<close> of a value with an integer literal (\<open>k < v\<close> has the same
  result). Numbers compare by value, with \<^verbatim>\<open>True\<close> as 1 and \<^verbatim>\<open>False\<close> as 0, and every
  comparison with \<^verbatim>\<open>NaN\<close> is false; \<^verbatim>\<open>None\<close>, a string, a list or a dictionary against an
  \<^verbatim>\<open>int\<close> raises \<^verbatim>\<open>TypeError\<close>.
\<close>

fun float_gt :: "pyfloat \<Rightarrow> int \<Rightarrow> bool" where
  "float_gt (Finite r) k = (real_of_int k < r)"
| "float_gt PosInf k = True"
| "float_gt NegInf k = False"
| "float_gt NaN k = False"

fun num_gt :: "json \<Rightarrow> int \<Rightarrow> error + bool" where
  "num_gt (JInt n) k = Inr (k < n)"
| "num_gt (JBool b) k = Inr (k < (if b then 1 else 0))"
| "num_gt (JFloat f) k = Inr (float_gt f k)"
| "num_gt JNull k = Inl TypeError"
| "num_gt (JStr s) k = Inl TypeError"
| "num_gt (JArr xs) k = Inl TypeError"
| "num_gt (JObj kvs) k = Inl TypeError"

text \<open>
  \<^verbatim>\<open>min(v, k)\<close> and \<^verbatim>\<open>max(k, v)\<close> with an integer literal \<open>k\<close>. Both start from their first
  argument and replace it by the second when the second is smaller (\<^verbatim>\<open>k < v\<close>), respectively
  greater (\<^verbatim>\<open>v > k\<close>); the value they return is one of the two arguments, unchanged.
\<close>

definition py_min :: "json \<Rightarrow> int \<Rightarrow> error + json" where
  "py_min v k = (case num_gt v k of Inl e \<Rightarrow> Inl e | Inr b \<Rightarrow> Inr (if b then JInt k else v))"

definition py_max :: "int \<Rightarrow> json \<Rightarrow> error + json" where
  "py_max k v = (case num_gt v k of Inl e \<Rightarrow> Inl e | Inr b \<Rightarrow> Inr (if b then v else JInt k))"

text \<open>The expression \<^verbatim>\<open>max(1, min(priority, 3))\<close> of line 23.\<close>

definition max1_min3 :: "json \<Rightarrow> error + json" where
  "max1_min3 v = (case py_min v 3 of Inl e \<Rightarrow> Inl e | Inr m \<Rightarrow> py_max 1 m)"

text \<open>
  The truth value of a Python value, as \<^verbatim>\<open>if v\<close> and \<^verbatim>\<open>not v\<close> take it: \<^verbatim>\<open>None\<close>, \<^verbatim>\<open>False\<close>,
  zero and the empty string, list and dictionary are false.
\<close>

fun truthy :: "json \<Rightarrow> bool" where
  "truthy JNull = False"
| "truthy (JBool b) = b"
| "truthy (JInt n) = (n \<noteq> 0)"
| "truthy (JFloat (Finite r)) = (r \<noteq> 0)"
| "truthy (JFloat f) = True"
| "truthy (JStr s) = (s \<noteq> [])"
| "truthy (JArr xs) = (xs \<noteq> [])"
| "truthy (JObj kvs) = (kvs \<noteq> [])"

subsection \<open>\<^verbatim>\<open>Task\<close>\<close>

text \<open>
  The fields \<^verbatim>\<open>note\<close> and \<^verbatim>\<open>done\<close> are spelled \<open>note_t\<close> and \<open>done_t\<close>: the plain words are
  reserved by Isabelle.
\<close>

record Task =
  title :: json
  note_t :: json
  priority :: json
  assignee :: json
  done_t :: json
  created_at :: json

text \<open>
  \<^verbatim>\<open>Task.__init__(self, title, note="", priority=2, assignee="Unassigned")\<close>, lines 20-26.
  \<open>now\<close> is the value of \<^verbatim>\<open>datetime.now().isoformat()\<close> at line 26. Line 23 raises
  \<^verbatim>\<open>TypeError\<close> for a priority that does not compare with an integer, and no object is
  built. The defaults of the optional parameters are the three constants below; a call
  that leaves a parameter out passes the constant.
\<close>

definition default_note :: json where
  "default_note = JStr ''''"

definition default_priority :: json where
  "default_priority = JInt 2"

definition default_assignee :: json where
  "default_assignee = JStr ''Unassigned''"

definition Task_init :: "string \<Rightarrow> json \<Rightarrow> json \<Rightarrow> json \<Rightarrow> json \<Rightarrow> error + Task" where
  "Task_init now title' note' priority' assignee' =
     (case max1_min3 priority' of
        Inl e \<Rightarrow> Inl e
      | Inr p \<Rightarrow>
          Inr \<lparr> title = title',
                note_t = note',
                priority = p,
                assignee = assignee',
                done_t = JBool False,
                created_at = JStr now \<rparr>)"

text \<open>\<^verbatim>\<open>mark_done\<close> and \<^verbatim>\<open>mark_undone\<close>, lines 28-34.\<close>

definition mark_done :: "Task \<Rightarrow> Task" where
  "mark_done t = t\<lparr>done_t := JBool True\<rparr>"

definition mark_undone :: "Task \<Rightarrow> Task" where
  "mark_undone t = t\<lparr>done_t := JBool False\<rparr>"

text \<open>\<^verbatim>\<open>to_dict\<close>, lines 36-45: a dictionary of six items.\<close>

definition to_dict :: "Task \<Rightarrow> json" where
  "to_dict t =
     JObj [(''title'', title t),
           (''note'', note_t t),
           (''priority'', priority t),
           (''assignee'', assignee t),
           (''done'', done_t t),
           (''created_at'', created_at t)]"

text \<open>
  \<^verbatim>\<open>from_dict\<close>, lines 47-53. Python evaluates \<^verbatim>\<open>data["title"]\<close> first: on a dictionary
  without the key it raises \<^verbatim>\<open>KeyError\<close>, and on a value that is not a dictionary
  \<^verbatim>\<open>TypeError\<close> (a string or a list takes integer indices only, the other values take
  none); either way the constructor does not run. The clock is read twice: \<open>now0\<close> by the
  constructor (line 26), \<open>now1\<close> by the default of \<^verbatim>\<open>data.get("created_at", ...)\<close>, which
  Python evaluates whether or not the key is present.
\<close>

fun from_dict :: "string \<Rightarrow> string \<Rightarrow> json \<Rightarrow> error + Task" where
  "from_dict now0 now1 (JObj data) =
     (case subscript data ''title'' of
        Inl e \<Rightarrow> Inl e
      | Inr title' \<Rightarrow>
          (case Task_init now0 title' (get_default data ''note'' (JStr ''''))
                  (get_default data ''priority'' (JInt 2))
                  (get_default data ''assignee'' (JStr ''Unassigned'')) of
             Inl e \<Rightarrow> Inl e
           | Inr t \<Rightarrow>
               let t = t\<lparr>done_t := get_default data ''done'' (JBool False)\<rparr>;
                   t = t\<lparr>created_at := get_default data ''created_at'' (JStr now1)\<rparr>
               in Inr t))"
| "from_dict now0 now1 JNull = Inl TypeError"
| "from_dict now0 now1 (JBool b) = Inl TypeError"
| "from_dict now0 now1 (JInt n) = Inl TypeError"
| "from_dict now0 now1 (JFloat f) = Inl TypeError"
| "from_dict now0 now1 (JStr s) = Inl TypeError"
| "from_dict now0 now1 (JArr xs) = Inl TypeError"

text \<open>
  \<^verbatim>\<open>__str__\<close>, lines 55-58 (the specification's \<^verbatim>\<open>display()\<close>). The priority label is a
  lookup in a dictionary with the keys 1, 2, 3. A list or a dictionary is not hashable and
  raises \<^verbatim>\<open>TypeError\<close>; any other value finds the key it is equal to (\<^verbatim>\<open>True\<close> and \<^verbatim>\<open>1.0\<close>
  equal 1) or raises \<^verbatim>\<open>KeyError\<close>. \<open>key_int\<close> is the integer a value equals, if any.

  The f-string formats the title and the assignee: a string as itself, another value by
  Python's built-in \<^verbatim>\<open>str\<close>, which is no code of this repository and is the parameter
  \<open>str_of\<close>. The check mark U+2713 is its three UTF-8 bytes.
\<close>

fun key_int :: "json \<Rightarrow> int option" where
  "key_int (JInt n) = Some n"
| "key_int (JBool b) = Some (if b then 1 else 0)"
| "key_int (JFloat (Finite r)) = (if real_of_int \<lfloor>r\<rfloor> = r then Some \<lfloor>r\<rfloor> else None)"
| "key_int v = None"

definition priority_labels :: "(int \<times> string) list" where
  "priority_labels = [(1, ''High''), (2, ''Med''), (3, ''Low'')]"

fun label_lookup :: "json \<Rightarrow> error + string" where
  "label_lookup (JArr xs) = Inl TypeError"
| "label_lookup (JObj kvs) = Inl TypeError"
| "label_lookup v =
     (case key_int v of
        None \<Rightarrow> Inl (KeyError v)
      | Some n \<Rightarrow>
          (case map_of priority_labels n of
             None \<Rightarrow> Inl (KeyError v)
           | Some pr \<Rightarrow> Inr pr))"

definition check_mark :: string where
  "check_mark = [CHR 0xE2, CHR 0x9C, CHR 0x93]"

definition format_value :: "(json \<Rightarrow> string) \<Rightarrow> json \<Rightarrow> string" where
  "format_value str_of v = (case v of JStr s \<Rightarrow> s | _ \<Rightarrow> str_of v)"

definition display :: "(json \<Rightarrow> string) \<Rightarrow> Task \<Rightarrow> error + string" where
  "display str_of t =
     (let status = (if truthy (done_t t) then check_mark else '' '') in
      case label_lookup (priority t) of
        Inl e \<Rightarrow> Inl e
      | Inr pr \<Rightarrow>
          Inr (''['' @ status @ ''] '' @ format_value str_of (title t) @ '' (Priority: '' @ pr
                 @ '', Assignee: '' @ format_value str_of (assignee t) @ '')''))"

subsection \<open>\<^verbatim>\<open>ToDoList\<close>\<close>

record ToDoList =
  tasks :: "Task list"

text \<open>\<^verbatim>\<open>__init__\<close>, lines 63-64, and \<^verbatim>\<open>add_task\<close>, lines 66-68.\<close>

definition ToDoList_init :: ToDoList where
  "ToDoList_init = \<lparr> tasks = [] \<rparr>"

definition add_task :: "ToDoList \<Rightarrow> Task \<Rightarrow> ToDoList" where
  "add_task s task = s\<lparr>tasks := tasks s @ [task]\<rparr>"

text \<open>
  \<^verbatim>\<open>remove_task\<close>, lines 70-75. The guard admits only \<open>0 \<le> index < len\<close>, so the
  \<^verbatim>\<open>del\<close> never sees a negative index.
\<close>

definition remove_task :: "ToDoList \<Rightarrow> int \<Rightarrow> bool \<times> ToDoList" where
  "remove_task s index =
     (if 0 \<le> index \<and> index < int (length (tasks s))
      then (True, s\<lparr>tasks := take (nat index) (tasks s) @ drop (Suc (nat index)) (tasks s)\<rparr>)
      else (False, s))"


text \<open>
  Files. A file holds bytes that are no UTF-8 text, or text that \<^verbatim>\<open>json.load\<close> rejects, or
  a JSON document, given as the value \<^verbatim>\<open>json.load\<close> returns for it. A name the file system
  does not map is a file that does not exist.
\<close>

datatype file_content = Undecodable | Unparseable | Json json

type_synonym file_system = "string \<Rightarrow> file_content option"

text \<open>
  \<^verbatim>\<open>save\<close>, lines 83-86: the file is created or overwritten with the list of the tasks'
  dictionaries; the store is not touched.
\<close>

definition save :: "file_system \<Rightarrow> ToDoList \<Rightarrow> string \<Rightarrow> file_system" where
  "save fs s filename = fs(filename \<mapsto> Json (JArr (map to_dict (tasks s))))"

text \<open>\<^verbatim>\<open>open(filename, "r", encoding="utf-8")\<close> and \<^verbatim>\<open>json.load\<close>.\<close>

definition open_read :: "file_system \<Rightarrow> string \<Rightarrow> error + file_content" where
  "open_read fs filename =
     (case fs filename of None \<Rightarrow> Inl FileNotFoundError | Some c \<Rightarrow> Inr c)"

definition json_load :: "file_content \<Rightarrow> error + json" where
  "json_load c =
     (case c of
        Undecodable \<Rightarrow> Inl UnicodeDecodeError
      | Unparseable \<Rightarrow> Inl JSONDecodeError
      | Json v \<Rightarrow> Inr v)"

text \<open>
  What \<^verbatim>\<open>for d in data\<close> iterates over: the elements of a list, the keys of a dictionary,
  the characters of a string; any other value is not iterable and raises \<^verbatim>\<open>TypeError\<close>.
  (A key or a character is a string, on which \<^verbatim>\<open>from_dict\<close> raises whatever it holds; so
  of the keys and characters only their number matters below.)
\<close>

fun py_iter :: "json \<Rightarrow> error + json list" where
  "py_iter (JArr xs) = Inr xs"
| "py_iter (JObj kvs) = Inr (map (\<lambda>kv. JStr (fst kv)) kvs)"
| "py_iter (JStr s) = Inr (map (\<lambda>c. JStr [c]) s)"
| "py_iter v = Inl TypeError"

text \<open>
  The list comprehension of line 93, \<^verbatim>\<open>[Task.from_dict(d) for d in data]\<close>: the elements
  are converted in order and the first exception ends the loop. \<open>clk\<close> is the clock:
  \<open>clk k\<close> is what its \<open>k\<close>-th read returns, and an element that is converted reads it
  twice.
\<close>

fun from_dicts :: "(nat \<Rightarrow> string) \<Rightarrow> nat \<Rightarrow> json list \<Rightarrow> error + Task list" where
  "from_dicts clk k [] = Inr []"
| "from_dicts clk k (d # ds) =
     (case from_dict (clk k) (clk (Suc k)) d of
        Inl e \<Rightarrow> Inl e
      | Inr t \<Rightarrow>
          (case from_dicts clk (Suc (Suc k)) ds of
             Inl e \<Rightarrow> Inl e
           | Inr ts \<Rightarrow> Inr (t # ts)))"

text \<open>
  \<^verbatim>\<open>load\<close>, lines 88-96. \<open>load_body\<close> is the \<^verbatim>\<open>try\<close> block up to the value that line 93
  assigns; \<open>load\<close> adds the assignment and the handler. The result is the exception that
  leaves the method, if any, and the store as the call leaves it: \<^verbatim>\<open>self.tasks\<close> is assigned
  once, after the whole list is built, or by the handler.
\<close>

definition load_body :: "(nat \<Rightarrow> string) \<Rightarrow> file_system \<Rightarrow> string \<Rightarrow> error + Task list" where
  "load_body clk fs filename =
     (case open_read fs filename of
        Inl e \<Rightarrow> Inl e
      | Inr c \<Rightarrow>
          (case json_load c of
             Inl e \<Rightarrow> Inl e
           | Inr data \<Rightarrow>
               (case py_iter data of
                  Inl e \<Rightarrow> Inl e
                | Inr ds \<Rightarrow> from_dicts clk 0 ds)))"

definition load :: "(nat \<Rightarrow> string) \<Rightarrow> file_system \<Rightarrow> ToDoList \<Rightarrow> string \<Rightarrow> error option \<times> ToDoList" where
  "load clk fs s filename =
     (case load_body clk fs filename of
        Inr ts \<Rightarrow> (None, s\<lparr>tasks := ts\<rparr>)
      | Inl FileNotFoundError \<Rightarrow> (None, s\<lparr>tasks := []\<rparr>)
      | Inl e \<Rightarrow> (Some e, s))"

text \<open>
  \<^verbatim>\<open>edit_task\<close>, lines 98-112. \<open>None\<close> is Python's \<^verbatim>\<open>None\<close>, the default of the four optional
  parameters. The task at \<open>index\<close> is updated in place, field after field. The priority
  is an \<^verbatim>\<open>int\<close> here, on which \<^verbatim>\<open>max(1, min(priority, 3))\<close> is the integer expression.
\<close>

definition edit_task ::
  "ToDoList \<Rightarrow> int \<Rightarrow> string option \<Rightarrow> string option \<Rightarrow> int option \<Rightarrow> string option
     \<Rightarrow> bool \<times> ToDoList" where
  "edit_task s index title' note' priority' assignee' =
     (if 0 \<le> index \<and> index < int (length (tasks s)) then
        let t = tasks s ! nat index;
            t = (case title' of None \<Rightarrow> t | Some v \<Rightarrow> t\<lparr>title := JStr v\<rparr>);
            t = (case note' of None \<Rightarrow> t | Some v \<Rightarrow> t\<lparr>note_t := JStr v\<rparr>);
            t = (case priority' of None \<Rightarrow> t | Some v \<Rightarrow> t\<lparr>priority := JInt (max 1 (min v 3))\<rparr>);
            t = (case assignee' of None \<Rightarrow> t | Some v \<Rightarrow> t\<lparr>assignee := JStr v\<rparr>)
        in (True, s\<lparr>tasks := (tasks s)[nat index := t]\<rparr>)
      else (False, s))"

subsection \<open>Notions of the specification\<close>

text \<open>
  The specification's \<^verbatim>\<open>clamp(p, lo, hi)\<close>, written from its glossary: constrain a value to
  the closed range by saturating at the nearer bound. The source has no such function; it
  writes \<^verbatim>\<open>max(1, min(priority, 3))\<close> in the constructor and in \<^verbatim>\<open>edit_task\<close>, and the two
  are compared below.
\<close>

definition spec_clamp :: "int \<Rightarrow> int \<Rightarrow> int \<Rightarrow> int" where
  "spec_clamp p lo hi = (if p < lo then lo else if hi < p then hi else p)"

text \<open>The invariant of the specification: the priority of a task is 1, 2 or 3.\<close>

definition priority_ok :: "Task \<Rightarrow> bool" where
  "priority_ok t = (priority t \<in> {JInt 1, JInt 2, JInt 3})"

text \<open>
  An integer priority input: a Python \<^verbatim>\<open>int\<close>, of which \<^verbatim>\<open>bool\<close> is a subclass. A number is
  an integer or a float. The priority that a value gives to \<^verbatim>\<open>from_dict\<close> is the item
  under \<^verbatim>\<open>"priority"\<close>, or 2; a value that is no dictionary gives none.
\<close>

fun is_int :: "json \<Rightarrow> bool" where
  "is_int (JInt n) = True"
| "is_int (JBool b) = True"
| "is_int v = False"

fun is_num :: "json \<Rightarrow> bool" where
  "is_num (JInt n) = True"
| "is_num (JBool b) = True"
| "is_num (JFloat f) = True"
| "is_num v = False"

fun int_priority :: "json \<Rightarrow> bool" where
  "int_priority (JObj data) = is_int (get_default data ''priority'' (JInt 2))"
| "int_priority v = True"

text \<open>
  The values that \<^verbatim>\<open>from_dict\<close> accepts (\<open>from_dict_succeeds_iff\<close> below): a dictionary
  with a title whose priority, if it has one, is a number.
\<close>

fun record_ok :: "json \<Rightarrow> bool" where
  "record_ok (JObj data) =
     (dict_get data ''title'' \<noteq> None \<and> is_num (get_default data ''priority'' (JInt 2)))"
| "record_ok v = False"

text \<open>
  A dictionary without the key \<^verbatim>\<open>title\<close>. A document on which the loop of line 93 raises
  \<^verbatim>\<open>TypeError\<close> before it builds a task: a value that is not iterable, or a string or a
  dictionary that is not empty, whose first character or key is a string and no
  dictionary.
\<close>

fun lacks_title :: "json \<Rightarrow> bool" where
  "lacks_title (JObj data) = (dict_get data ''title'' = None)"
| "lacks_title v = False"

fun loop_raises :: "json \<Rightarrow> bool" where
  "loop_raises (JArr ds) = False"
| "loop_raises (JStr str) = (str \<noteq> [])"
| "loop_raises (JObj kvs) = (kvs \<noteq> [])"
| "loop_raises v = True"

text \<open>A file whose records, if it is an array, give integer priorities.\<close>

fun int_priority_file :: "file_content option \<Rightarrow> bool" where
  "int_priority_file (Some (Json (JArr ds))) = list_all int_priority ds"
| "int_priority_file c = True"

text \<open>
  The tasks and the stores that the operations of the two classes build from integer
  priority inputs. A task is constructed or deserialised, then marked; a store starts
  empty and is changed by \<^verbatim>\<open>add_task\<close>, \<^verbatim>\<open>remove_task\<close>, \<^verbatim>\<open>edit_task\<close> and \<^verbatim>\<open>load\<close>. A stored
  task is the same object as the task that was added, so marking it changes the store in
  place, and a task read back from the store (\<^verbatim>\<open>get_tasks\<close>) is a task like any other.
  Only the priority is restricted: every other argument, item and file is arbitrary.
\<close>

inductive reachable_task :: "Task \<Rightarrow> bool" and reachable :: "ToDoList \<Rightarrow> bool" where
  constructed: "is_int p \<Longrightarrow> Task_init now ti n p a = Inr t \<Longrightarrow> reachable_task t"
| deserialized: "int_priority d \<Longrightarrow> from_dict now0 now1 d = Inr t \<Longrightarrow> reachable_task t"
| marked_done: "reachable_task t \<Longrightarrow> reachable_task (mark_done t)"
| marked_undone: "reachable_task t \<Longrightarrow> reachable_task (mark_undone t)"
| stored: "reachable s \<Longrightarrow> t \<in> set (tasks s) \<Longrightarrow> reachable_task t"
| fresh: "reachable ToDoList_init"
| added: "reachable s \<Longrightarrow> reachable_task t \<Longrightarrow> reachable (add_task s t)"
| removed: "reachable s \<Longrightarrow> reachable (snd (remove_task s i))"
| edited: "reachable s \<Longrightarrow> reachable (snd (edit_task s i ti' n' p' a'))"
| loaded: "reachable s \<Longrightarrow> int_priority_file (fs fn) \<Longrightarrow> reachable (snd (load clk fs s fn))"
| done_in_place: "reachable s \<Longrightarrow> i < length (tasks s) \<Longrightarrow>
     reachable (s\<lparr>tasks := (tasks s)[i := mark_done (tasks s ! i)]\<rparr>)"
| undone_in_place: "reachable s \<Longrightarrow> i < length (tasks s) \<Longrightarrow>
     reachable (s\<lparr>tasks := (tasks s)[i := mark_undone (tasks s ! i)]\<rparr>)"

subsection \<open>Example values\<close>

text \<open>
  Three tasks and the store that holds them in this order; the third is marked done.
  They are what the constructor returns for the calls of \<open>task_a_init\<close>, \<open>task_b_init\<close>
  and \<open>task_c_init\<close> below. \<open>task_f\<close> is what \<^verbatim>\<open>from_dict\<close> returns for the dictionary
  \<open>dict_f\<close>, whose priority is the float 2.5; \<open>dict_n\<close> has a title and the priority
  \<^verbatim>\<open>null\<close>, and \<open>dict_u\<close> has no title. \<open>str_q\<close> stands in for Python's \<^verbatim>\<open>str\<close>.
\<close>

definition task_a :: Task where
  "task_a = \<lparr> title = JStr ''Buy milk'', note_t = JStr '''', priority = JInt 3,
      assignee = JStr ''Unassigned'', done_t = JBool False,
      created_at = JStr ''2024-05-01T10:00:00'' \<rparr>"

definition task_b :: Task where
  "task_b = \<lparr> title = JStr ''Call Bob'', note_t = JStr ''about the report'', priority = JInt 1,
      assignee = JStr ''Ann'', done_t = JBool False,
      created_at = JStr ''2024-05-01T10:05:00'' \<rparr>"

definition task_c :: Task where
  "task_c = \<lparr> title = JStr ''Pay rent'', note_t = JStr '''', priority = JInt 1,
      assignee = JStr ''Ann'', done_t = JBool True,
      created_at = JStr ''2024-05-01T10:07:00'' \<rparr>"

definition store_abc :: ToDoList where
  "store_abc = add_task (add_task (add_task ToDoList_init task_a) task_b) task_c"

definition dict_f :: json where
  "dict_f = JObj [(''title'', JStr ''x''), (''priority'', JFloat (Finite (5 / 2)))]"

definition task_f :: Task where
  "task_f = \<lparr> title = JStr ''x'', note_t = JStr '''', priority = JFloat (Finite (5 / 2)),
      assignee = JStr ''Unassigned'', done_t = JBool False, created_at = JStr ''b'' \<rparr>"

definition dict_n :: json where
  "dict_n = JObj [(''title'', JStr ''x''), (''priority'', JNull)]"

definition dict_u :: json where
  "dict_u = JObj [(''note'', JStr ''n''), (''priority'', JInt 1), (''done'', JBool True)]"

definition str_q :: "json \<Rightarrow> string" where
  "str_q v = ''?''"

section \<open>Auxiliary facts\<close>

subsection \<open>Clamping\<close>

lemma max1_min3_int: "max1_min3 (JInt p) = Inr (JInt (spec_clamp p 1 3))"
  by (simp add: max1_min3_def py_min_def py_max_def spec_clamp_def)

lemma max_min_clamp: "max 1 (min p 3) = spec_clamp p 1 3"
  by (simp add: spec_clamp_def max_def min_def)

lemma spec_clamp_range: "spec_clamp p 1 3 \<in> {1, 2, 3}"
  by (auto simp: spec_clamp_def)

lemma max1_min3_bool: "max1_min3 (JBool b) = Inr (JInt 1)"
  by (simp add: max1_min3_def py_min_def py_max_def)

lemma max1_min3_is_int: "is_int v \<Longrightarrow> \<exists>k \<in> {1, 2, 3}. max1_min3 v = Inr (JInt k)"
proof (cases v)
  case (JInt p)
  then show ?thesis using spec_clamp_range [of p] by (simp add: max1_min3_int del: insert_iff)
next
  case (JBool b)
  then show ?thesis by (simp add: max1_min3_bool)
qed simp_all

lemma max1_min3_num: "is_num v \<Longrightarrow> \<exists>c. max1_min3 v = Inr c"
  by (cases v) (simp_all add: max1_min3_def py_min_def py_max_def)

lemma max1_min3_not_num: "\<not> is_num v \<Longrightarrow> max1_min3 v = Inl TypeError"
  by (cases v) (simp_all add: max1_min3_def py_min_def)

lemma max1_min3_float:
  "max1_min3 (JFloat (Finite r)) =
     Inr (if 3 < r then JInt 3 else if 1 < r then JFloat (Finite r) else JInt 1)"
  by (simp add: max1_min3_def py_min_def py_max_def)

lemma max1_min3_ok: "v \<in> {JInt 1, JInt 2, JInt 3} \<Longrightarrow> max1_min3 v = Inr v"
  by (auto simp: max1_min3_int spec_clamp_def)

subsection \<open>The constructor and \<open>from_dict\<close>\<close>

lemma Task_init_value:
  "max1_min3 p = Inr c \<Longrightarrow>
   Task_init now ti n p a =
     Inr \<lparr> title = ti, note_t = n, priority = c, assignee = a, done_t = JBool False,
           created_at = JStr now \<rparr>"
  by (simp add: Task_init_def)

lemma Task_init_int:
  "Task_init now ti n (JInt p) a =
     Inr \<lparr> title = ti, note_t = n, priority = JInt (spec_clamp p 1 3), assignee = a,
           done_t = JBool False, created_at = JStr now \<rparr>"
  by (simp add: Task_init_value max1_min3_int)

lemma Task_init_priority: "Task_init now ti n p a = Inr t \<Longrightarrow> max1_min3 p = Inr (priority t)"
  by (auto simp: Task_init_def split: sum.splits)

lemma Task_init_ok: "is_int p \<Longrightarrow> Task_init now ti n p a = Inr t \<Longrightarrow> priority_ok t"
  using max1_min3_is_int [of p] Task_init_priority [of now ti n p a t]
  by (auto simp: priority_ok_def)

lemma from_dict_value:
  "dict_get data ''title'' = Some ti \<Longrightarrow>
   max1_min3 (get_default data ''priority'' (JInt 2)) = Inr c \<Longrightarrow>
   from_dict now0 now1 (JObj data) = Inr
     \<lparr> title = ti,
       note_t = get_default data ''note'' (JStr ''''),
       priority = c,
       assignee = get_default data ''assignee'' (JStr ''Unassigned''),
       done_t = get_default data ''done'' (JBool False),
       created_at = get_default data ''created_at'' (JStr now1) \<rparr>"
  by (simp add: subscript_def Task_init_value)

lemma from_dict_no_title:
  "dict_get data ''title'' = None \<Longrightarrow>
   from_dict now0 now1 (JObj data) = Inl (KeyError (JStr ''title''))"
  by (simp add: subscript_def)

lemma from_dict_bad_priority:
  "dict_get data ''title'' = Some ti \<Longrightarrow>
   \<not> is_num (get_default data ''priority'' (JInt 2)) \<Longrightarrow>
   from_dict now0 now1 (JObj data) = Inl TypeError"
  by (simp add: subscript_def Task_init_def max1_min3_not_num)

declare from_dict.simps(1) [simp del]

lemma from_dict_fails:
  "\<not> record_ok d \<Longrightarrow>
   from_dict now0 now1 d = Inl (KeyError (JStr ''title'')) \<or> from_dict now0 now1 d = Inl TypeError"
proof (cases d)
  case (JObj data)
  assume "\<not> record_ok d"
  with JObj show ?thesis
    by (cases "dict_get data ''title''") (auto simp: from_dict_no_title from_dict_bad_priority)
qed simp_all

lemma from_dict_succeeds: "record_ok d \<Longrightarrow> \<exists>t. from_dict now0 now1 d = Inr t"
proof (cases d)
  case (JObj data)
  assume "record_ok d"
  with JObj obtain ti c where "dict_get data ''title'' = Some ti"
    and "max1_min3 (get_default data ''priority'' (JInt 2)) = Inr c"
    using max1_min3_num by fastforce
  then show ?thesis using JObj by (simp add: from_dict_value)
qed simp_all

lemma from_dict_succeeds_iff: "(\<exists>t. from_dict now0 now1 d = Inr t) \<longleftrightarrow> record_ok d"
proof (cases "record_ok d")
  case True
  then show ?thesis by (simp add: from_dict_succeeds)
next
  case False
  then show ?thesis using from_dict_fails [of d now0 now1] by auto
qed

lemma from_dict_priority:
  "from_dict now0 now1 (JObj data) = Inr t \<Longrightarrow>
   max1_min3 (get_default data ''priority'' (JInt 2)) = Inr (priority t)"
  by (auto simp: from_dict.simps(1) Let_def split: sum.splits dest: Task_init_priority)

lemma from_dict_ok: "int_priority d \<Longrightarrow> from_dict now0 now1 d = Inr t \<Longrightarrow> priority_ok t"
proof (cases d)
  case (JObj data)
  assume "int_priority d" and "from_dict now0 now1 d = Inr t"
  with JObj show ?thesis
    using max1_min3_is_int [of "get_default data ''priority'' (JInt 2)"]
      from_dict_priority [of now0 now1 data t]
    by (auto simp: priority_ok_def)
qed simp_all

lemma from_dicts_ok:
  "list_all int_priority ds \<Longrightarrow> from_dicts clk k ds = Inr ts \<Longrightarrow> t \<in> set ts \<Longrightarrow> priority_ok t"
proof (induction ds arbitrary: k ts)
  case Nil
  then show ?case by simp
next
  case (Cons d ds)
  then show ?case
    by (auto split: sum.splits dest: from_dict_ok)
qed

lemma from_dicts_strings:
  "from_dicts clk k (map (\<lambda>x. JStr (f x)) xs) = (if xs = [] then Inr [] else Inl TypeError)"
  by (cases xs) simp_all

lemma iterate_ok:
  assumes "int_priority_file (Some (Json v))"
    and "(case py_iter v of Inl e \<Rightarrow> Inl e | Inr ds \<Rightarrow> from_dicts clk k ds) = Inr ts"
    and "t \<in> set ts"
  shows "priority_ok t"
proof (cases v)
  case (JArr ds)
  with assms show ?thesis by (auto dest: from_dicts_ok)
next
  case (JObj kvs)
  with assms show ?thesis by (auto simp: from_dicts_strings split: if_splits)
next
  case (JStr str)
  with assms show ?thesis by (auto simp: from_dicts_strings split: if_splits)
qed (use assms in simp_all)

lemma load_body_ok:
  assumes "int_priority_file (fs fn)" and "load_body clk fs fn = Inr ts" and "t \<in> set ts"
  shows "priority_ok t"
proof (cases "fs fn")
  case None
  with assms show ?thesis by (simp add: load_body_def open_read_def)
next
  case (Some c)
  show ?thesis
  proof (cases c)
    case (Json v)
    with assms Some show ?thesis
      using iterate_ok [of v clk 0 ts t]
      by (simp add: load_body_def open_read_def json_load_def)
  qed (use assms Some in \<open>simp_all add: load_body_def open_read_def json_load_def\<close>)
qed

lemma load_ok:
  assumes "\<forall>t\<in>set (tasks s). priority_ok t" and "int_priority_file (fs fn)"
  shows "\<forall>t\<in>set (tasks (snd (load clk fs s fn))). priority_ok t"
  using assms load_body_ok [of fs fn clk]
  by (auto simp: load_def split: sum.splits error.splits)

subsection \<open>The priority invariant\<close>

lemma edit_task_out_of_range:
  "index < 0 \<or> int (length (tasks s)) \<le> index \<Longrightarrow> edit_task s index ti n p a = (False, s)"
  by (auto simp: edit_task_def)

lemma edit_task_in_range:
  assumes "0 \<le> index" and "index < int (length (tasks s))"
  shows "edit_task s index ti n p a =
    (True, s\<lparr>tasks := (tasks s)[nat index :=
       \<lparr> title = (case ti of None \<Rightarrow> title (tasks s ! nat index) | Some v \<Rightarrow> JStr v),
         note_t = (case n of None \<Rightarrow> note_t (tasks s ! nat index) | Some v \<Rightarrow> JStr v),
         priority = (case p of None \<Rightarrow> priority (tasks s ! nat index)
                     | Some v \<Rightarrow> JInt (spec_clamp v 1 3)),
         assignee = (case a of None \<Rightarrow> assignee (tasks s ! nat index) | Some v \<Rightarrow> JStr v),
         done_t = done_t (tasks s ! nat index),
         created_at = created_at (tasks s ! nat index) \<rparr>]\<rparr>)"
  using assms
  by (cases "tasks s ! nat index"; cases ti; cases n; cases p; cases a)
    (simp_all add: edit_task_def max_min_clamp)

lemma edit_task_ok:
  assumes "\<forall>t\<in>set (tasks s). priority_ok t"
  shows "\<forall>t\<in>set (tasks (snd (edit_task s i ti n p a))). priority_ok t"
proof (cases "0 \<le> i \<and> i < int (length (tasks s))")
  case False
  then show ?thesis using assms by (auto simp: edit_task_def)
next
  case True
  then have lt: "nat i < length (tasks s)" by linarith
  then have old: "priority_ok (tasks s ! nat i)" using assms by simp
  show ?thesis
  proof
    fix t assume "t \<in> set (tasks (snd (edit_task s i ti n p a)))"
    then have "t \<in> set ((tasks s)[nat i :=
       \<lparr> title = (case ti of None \<Rightarrow> title (tasks s ! nat i) | Some v \<Rightarrow> JStr v),
         note_t = (case n of None \<Rightarrow> note_t (tasks s ! nat i) | Some v \<Rightarrow> JStr v),
         priority = (case p of None \<Rightarrow> priority (tasks s ! nat i)
                     | Some v \<Rightarrow> JInt (spec_clamp v 1 3)),
         assignee = (case a of None \<Rightarrow> assignee (tasks s ! nat i) | Some v \<Rightarrow> JStr v),
         done_t = done_t (tasks s ! nat i),
         created_at = created_at (tasks s ! nat i) \<rparr>])" (is "t \<in> set ((tasks s)[nat i := ?u])")
      using True by (simp add: edit_task_in_range)
    then have "t = ?u \<or> t \<in> set (tasks s)"
      using set_update_subset_insert by fastforce
    moreover have "priority_ok ?u"
    proof (cases p)
      case None
      with old show ?thesis by (simp add: priority_ok_def)
    next
      case (Some v)
      with spec_clamp_range [of v] show ?thesis by (auto simp: priority_ok_def)
    qed
    ultimately show "priority_ok t" using assms by auto
  qed
qed

lemma remove_task_ok:
  assumes "\<forall>t\<in>set (tasks s). priority_ok t"
  shows "\<forall>t\<in>set (tasks (snd (remove_task s i))). priority_ok t"
  using assms
  by (auto simp: remove_task_def dest: in_set_takeD in_set_dropD)

lemma mark_ok: "priority_ok t \<Longrightarrow> priority_ok (mark_done t) \<and> priority_ok (mark_undone t)"
  by (simp add: priority_ok_def mark_done_def mark_undone_def)

lemma update_ok:
  assumes "\<forall>t\<in>set (tasks s). priority_ok t" and "priority_ok u"
  shows "\<forall>t\<in>set (tasks (s\<lparr>tasks := (tasks s)[i := u]\<rparr>)). priority_ok t"
proof
  fix t assume "t \<in> set (tasks (s\<lparr>tasks := (tasks s)[i := u]\<rparr>))"
  then have "t = u \<or> t \<in> set (tasks s)"
    using set_update_subset_insert by fastforce
  then show "priority_ok t" using assms by auto
qed

lemma reachable_ok_both:
  shows "reachable_task t \<Longrightarrow> priority_ok t"
    and "reachable s \<Longrightarrow> \<forall>t\<in>set (tasks s). priority_ok t"
proof (induction rule: reachable_task_reachable.inducts)
  case (constructed p now ti n a t)
  then show ?case by (rule Task_init_ok)
next
  case (deserialized d now0 now1 t)
  then show ?case by (rule from_dict_ok)
next
  case (marked_done t)
  then show ?case by (simp add: mark_ok)
next
  case (marked_undone t)
  then show ?case by (simp add: mark_ok)
next
  case (stored s t)
  then show ?case by simp
next
  case fresh
  show ?case by (simp add: ToDoList_init_def)
next
  case (added s t)
  then show ?case by (simp add: add_task_def)
next
  case (removed s i)
  then show ?case by (intro remove_task_ok)
next
  case (edited s i ti' n' p' a')
  then show ?case by (intro edit_task_ok)
next
  case (loaded s fs fn clk)
  then show ?case by (intro load_ok)
next
  case (done_in_place s i)
  then show ?case by (intro update_ok) (simp_all add: mark_ok)
next
  case (undone_in_place s i)
  then show ?case by (intro update_ok) (simp_all add: mark_ok)
qed

lemma reachable_task_ok: "reachable_task t \<Longrightarrow> priority_ok t"
  by (rule reachable_ok_both(1))

lemma reachable_store_ok: "reachable s \<Longrightarrow> t \<in> set (tasks s) \<Longrightarrow> priority_ok t"
  using reachable_ok_both(2) by blast

subsection \<open>Serialising and reading back\<close>

lemma dict_get_to_dict:
  "to_dict t = JObj data \<Longrightarrow>
   dict_get data ''title'' = Some (title t) \<and>
   dict_get data ''note'' = Some (note_t t) \<and>
   dict_get data ''priority'' = Some (priority t) \<and>
   dict_get data ''assignee'' = Some (assignee t) \<and>
   dict_get data ''done'' = Some (done_t t) \<and>
   dict_get data ''created_at'' = Some (created_at t)"
  by (auto simp: to_dict_def dict_get_def)

lemma from_dict_to_dict: "priority_ok t \<Longrightarrow> from_dict now0 now1 (to_dict t) = Inr t"
proof -
  assume ok: "priority_ok t"
  obtain data where d: "to_dict t = JObj data"
    by (simp add: to_dict_def)
  note g = dict_get_to_dict [OF d]
  from ok have "max1_min3 (priority t) = Inr (priority t)"
    by (simp only: priority_ok_def max1_min3_ok)
  with g have "max1_min3 (get_default data ''priority'' (JInt 2)) = Inr (priority t)"
    by (simp add: get_default_def)
  with g show ?thesis
    unfolding d by (cases t) (simp add: from_dict_value get_default_def)
qed

lemma from_dicts_to_dict:
  "\<forall>t\<in>set ts. priority_ok t \<Longrightarrow> from_dicts clk k (map to_dict ts) = Inr ts"
  by (induction ts arbitrary: k) (simp_all add: from_dict_to_dict)

lemma load_save:
  assumes "\<forall>t\<in>set (tasks s). priority_ok t"
  shows "load clk (save fs s filename) s' filename = (None, s'\<lparr>tasks := tasks s\<rparr>)"
  using assms
  by (simp add: load_def load_body_def save_def open_read_def json_load_def from_dicts_to_dict)

subsection \<open>The example values\<close>

lemma task_a_init:
  "Task_init ''2024-05-01T10:00:00'' (JStr ''Buy milk'') default_note (JInt 5) default_assignee
     = Inr task_a"
  by (simp add: Task_init_int spec_clamp_def task_a_def default_note_def default_assignee_def)

lemma task_b_init:
  "Task_init ''2024-05-01T10:05:00'' (JStr ''Call Bob'') (JStr ''about the report'') (JInt 1)
     (JStr ''Ann'') = Inr task_b"
  by (simp add: Task_init_int spec_clamp_def task_b_def)

lemma task_c_init:
  "Task_init ''2024-05-01T10:07:00'' (JStr ''Pay rent'') default_note (JInt 0) (JStr ''Ann'')
     = Inr (mark_undone task_c) \<and> mark_done (mark_undone task_c) = task_c"
  by (simp add: Task_init_int spec_clamp_def task_c_def default_note_def mark_done_def
      mark_undone_def)

lemma store_abc_tasks: "tasks store_abc = [task_a, task_b, task_c]"
  by (simp add: store_abc_def add_task_def ToDoList_init_def)

lemma reachable_task_a: "reachable_task task_a"
  using task_a_init by (rule constructed [rotated]) simp

lemma reachable_task_b: "reachable_task task_b"
  using task_b_init by (rule constructed [rotated]) simp

lemma reachable_task_c: "reachable_task task_c"
proof -
  have "reachable_task (mark_undone task_c)"
    using task_c_init [THEN conjunct1] by (rule constructed [rotated]) simp
  then have "reachable_task (mark_done (mark_undone task_c))"
    by (rule marked_done)
  then show ?thesis by (simp add: task_c_init)
qed

lemma reachable_store_abc: "reachable store_abc"
  unfolding store_abc_def
  by (intro added fresh reachable_task_a reachable_task_b reachable_task_c)

lemma from_dict_dict_f: "from_dict a ''b'' dict_f = Inr task_f"
proof -
  have "dict_get [(''title'', JStr ''x''), (''priority'', JFloat (Finite (5 / 2)))] ''title''
      = Some (JStr ''x'')"
    by (simp add: dict_get_def)
  moreover have "max1_min3 (get_default [(''title'', JStr ''x''),
      (''priority'', JFloat (Finite (5 / 2)))] ''priority'' (JInt 2)) = Inr (JFloat (Finite (5 / 2)))"
    by (simp add: get_default_def dict_get_def max1_min3_float)
  ultimately show ?thesis
    unfolding dict_f_def task_f_def
    by (simp add: from_dict_value) (simp add: get_default_def dict_get_def)
qed

lemma from_dict_dict_n: "from_dict a b dict_n = Inl TypeError"
  unfolding dict_n_def
  by (rule from_dict_bad_priority [where ti = "JStr ''x''"])
    (simp_all add: dict_get_def get_default_def)

lemma from_dict_dict_u: "from_dict a b dict_u = Inl (KeyError (JStr ''title''))"
  unfolding dict_u_def
  by (rule from_dict_no_title) (simp add: dict_get_def)

subsection \<open>Removing from a list\<close>

lemma nth_remove_before:
  "j < n \<Longrightarrow> n < length xs \<Longrightarrow> (take n xs @ drop (Suc n) xs) ! j = xs ! j"
  by (simp add: nth_append)

lemma nth_remove_after:
  "n \<le> j \<Longrightarrow> Suc j < length xs \<Longrightarrow> (take n xs @ drop (Suc n) xs) ! j = xs ! Suc j"
  by (simp add: nth_append min_def)

subsection \<open>What \<open>load\<close> does on each content\<close>

lemma from_dicts_fails:
  "\<exists>d\<in>set ds. \<not> record_ok d \<Longrightarrow>
   from_dicts clk k ds = Inl (KeyError (JStr ''title'')) \<or> from_dicts clk k ds = Inl TypeError"
proof (induction ds arbitrary: k)
  case Nil
  then show ?case by simp
next
  case (Cons d ds)
  show ?case
  proof (cases "record_ok d")
    case False
    with from_dict_fails [of d "clk k" "clk (Suc k)"] show ?thesis by auto
  next
    case True
    then obtain t where t: "from_dict (clk k) (clk (Suc k)) d = Inr t"
      using from_dict_succeeds by blast
    from True Cons.prems have "\<exists>d\<in>set ds. \<not> record_ok d" by auto
    then have "from_dicts clk (Suc (Suc k)) ds = Inl (KeyError (JStr ''title'')) \<or>
        from_dicts clk (Suc (Suc k)) ds = Inl TypeError"
      by (rule Cons.IH)
    then show ?thesis using t by auto
  qed
qed

lemma from_dicts_succeeds:
  "\<forall>d\<in>set ds. record_ok d \<Longrightarrow> \<exists>ts. from_dicts clk k ds = Inr ts \<and> length ts = length ds"
proof (induction ds arbitrary: k)
  case Nil
  then show ?case by simp
next
  case (Cons d ds)
  then obtain t where t: "from_dict (clk k) (clk (Suc k)) d = Inr t"
    using from_dict_succeeds by fastforce
  from Cons obtain ts where "from_dicts clk (Suc (Suc k)) ds = Inr ts \<and> length ts = length ds"
    by fastforce
  with t show ?case by simp
qed

lemma load_raises:
  "load_body clk fs filename = Inl e \<Longrightarrow> e \<noteq> FileNotFoundError \<Longrightarrow>
   load clk fs s filename = (Some e, s)"
  by (cases e) (simp_all add: load_def)

lemma load_body_json:
  "fs filename = Some (Json v) \<Longrightarrow>
   load_body clk fs filename =
     (case py_iter v of Inl e \<Rightarrow> Inl e | Inr ds \<Rightarrow> from_dicts clk 0 ds)"
  by (simp add: load_body_def open_read_def json_load_def)

lemma load_array_fails:
  assumes "fs filename = Some (Json (JArr ds))" and "\<exists>d\<in>set ds. \<not> record_ok d"
  shows "load clk fs s filename = (Some (KeyError (JStr ''title'')), s) \<or>
         load clk fs s filename = (Some TypeError, s)"
proof -
  from assms(1) have "load_body clk fs filename = from_dicts clk 0 ds"
    by (simp add: load_body_json)
  with from_dicts_fails [OF assms(2), of clk 0] show ?thesis
    by (auto simp: load_raises)
qed

lemma load_array_succeeds:
  assumes "fs filename = Some (Json (JArr ds))" and "\<forall>d\<in>set ds. record_ok d"
  shows "fst (load clk fs s filename) = None \<and>
         length (tasks (snd (load clk fs s filename))) = length ds"
proof -
  from assms(1) have "load_body clk fs filename = from_dicts clk 0 ds"
    by (simp add: load_body_json)
  with from_dicts_succeeds [OF assms(2), of clk 0] show ?thesis
    by (auto simp: load_def)
qed

lemma load_empty_iterable:
  assumes "fs filename = Some (Json v)" and "v = JObj [] \<or> v = JStr [] \<or> v = JArr []"
  shows "load clk fs s filename = (None, s\<lparr>tasks := []\<rparr>)"
  using assms by (auto simp: load_def load_body_json)

lemma lacks_title_not_ok: "lacks_title d \<Longrightarrow> \<not> record_ok d"
  by (cases d) simp_all

lemma from_dict_lacks_title:
  "lacks_title d \<Longrightarrow> from_dict now0 now1 d = Inl (KeyError (JStr ''title''))"
  by (cases d) (simp_all add: from_dict_no_title)

lemma from_dicts_no_title:
  "\<exists>d\<in>set ds. lacks_title d \<Longrightarrow> \<forall>d\<in>set ds. record_ok d \<or> lacks_title d \<Longrightarrow>
   from_dicts clk k ds = Inl (KeyError (JStr ''title''))"
proof (induction ds arbitrary: k)
  case Nil
  then show ?case by simp
next
  case (Cons d ds)
  show ?case
  proof (cases "lacks_title d")
    case True
    then show ?thesis by (simp add: from_dict_lacks_title)
  next
    case False
    with Cons.prems have "record_ok d" by simp
    then obtain t where t: "from_dict (clk k) (clk (Suc k)) d = Inr t"
      using from_dict_succeeds by blast
    from False Cons.prems have "\<exists>d\<in>set ds. lacks_title d" and "\<forall>d\<in>set ds. record_ok d \<or> lacks_title d"
      by auto
    then have "from_dicts clk (Suc (Suc k)) ds = Inl (KeyError (JStr ''title''))"
      by (rule Cons.IH)
    with t show ?thesis by simp
  qed
qed

lemma load_array_no_title:
  assumes "fs filename = Some (Json (JArr ds))" and "\<exists>d\<in>set ds. lacks_title d"
    and "\<forall>d\<in>set ds. record_ok d \<or> lacks_title d"
  shows "load clk fs s filename = (Some (KeyError (JStr ''title'')), s)"
proof -
  from assms(1) have "load_body clk fs filename = from_dicts clk 0 ds"
    by (simp add: load_body_json)
  with from_dicts_no_title [OF assms(2,3), of clk 0] show ?thesis
    by (simp add: load_raises)
qed

lemma load_loop_raises:
  assumes "fs filename = Some (Json v)" and "loop_raises v"
  shows "load clk fs s filename = (Some TypeError, s)"
proof -
  from assms(2) have "(case py_iter v of Inl e \<Rightarrow> Inl e | Inr ds \<Rightarrow> from_dicts clk 0 ds)
      = Inl TypeError"
    by (cases v) (simp_all add: from_dicts_strings)
  with assms(1) show ?thesis
    by (simp add: load_body_json load_raises)
qed

lemma load_not_text:
  "fs filename = Some Undecodable \<Longrightarrow> load clk fs s filename = (Some UnicodeDecodeError, s)"
  "fs filename = Some Unparseable \<Longrightarrow> load clk fs s filename = (Some JSONDecodeError, s)"
  by (simp_all add: load_def load_body_def open_read_def json_load_def)

subsection \<open>The label lookup\<close>

lemma label_lookup_iff:
  "(\<exists>pr. label_lookup v = Inr pr) \<longleftrightarrow> key_int v \<in> {Some 1, Some 2, Some 3}"
proof (cases "key_int v")
  case None
  then show ?thesis by (cases v) auto
next
  case (Some n)
  then have "label_lookup v =
      (case map_of priority_labels n of None \<Rightarrow> Inl (KeyError v) | Some pr \<Rightarrow> Inr pr)"
    by (cases v) auto
  then show ?thesis using Some
    by (auto simp: priority_labels_def split: if_splits)
qed

lemma display_total_iff:
  "(\<exists>str. display str_of t = Inr str) \<longleftrightarrow> key_int (priority t) \<in> {Some 1, Some 2, Some 3}"
proof -
  have "(\<exists>str. display str_of t = Inr str) \<longleftrightarrow> (\<exists>pr. label_lookup (priority t) = Inr pr)"
    by (auto simp: display_def Let_def split: sum.splits)
  then show ?thesis by (simp only: label_lookup_iff)
qed

lemma priority_ok_key: "priority_ok t \<Longrightarrow> key_int (priority t) \<in> {Some 1, Some 2, Some 3}"
  by (auto simp: priority_ok_def)

section \<open>The claims\<close>

text \<open>
  C1. For every valid task \<open>t\<close> (its priority is 1, 2 or 3), deserialising the
  serialisation of \<open>t\<close> succeeds and returns \<open>t\<close>, equal in all six fields; \<open>created_at\<close>
  comes back as stored, whatever the clock says during the call. For every store of valid
  tasks, \<^verbatim>\<open>load\<close> of a file name right after \<^verbatim>\<open>save\<close> to that file name, into the same store
  or any other, raises nothing and leaves the loading store with the saved sequence: the
  same list, hence the same length, order and field values. The tasks and the stores
  that the operations build from integer priorities are valid, so both statements hold
  of them.
\<close>

theorem roundtrip:
  "(priority_ok t \<longrightarrow> from_dict now_init now_dflt (to_dict t) = Inr t) \<and>
   (reachable_task t \<longrightarrow> from_dict now_init now_dflt (to_dict t) = Inr t) \<and>
   ((\<forall>u\<in>set (tasks s). priority_ok u) \<longrightarrow>
      fst (load clk (save fs s filename) s' filename) = None \<and>
      tasks (snd (load clk (save fs s filename) s' filename)) = tasks s) \<and>
   (reachable s \<longrightarrow>
      fst (load clk (save fs s filename) s' filename) = None \<and>
      tasks (snd (load clk (save fs s filename) s' filename)) = tasks s)"
proof -
  have one: "from_dict now_init now_dflt (to_dict t) = Inr t" if "priority_ok t"
    using that by (rule from_dict_to_dict)
  have all: "fst (load clk (save fs s filename) s' filename) = None \<and>
      tasks (snd (load clk (save fs s filename) s' filename)) = tasks s"
    if "\<forall>u\<in>set (tasks s). priority_ok u"
    using that by (simp add: load_save)
  have "reachable s \<Longrightarrow> \<forall>u\<in>set (tasks s). priority_ok u"
    using reachable_store_ok [of s] by blast
  with one all reachable_task_ok [of t] show ?thesis by blast
qed

theorem roundtrip_witness:
  "priority_ok task_c \<and> reachable_task task_c \<and>
   from_dict ''a'' ''b'' (to_dict task_c) = Inr task_c \<and>
   list_all priority_ok (tasks store_abc) \<and> reachable store_abc \<and>
   fst (load (\<lambda>k. ''c'') (save Map.empty store_abc ''x.json'') ToDoList_init ''x.json'') = None \<and>
   tasks (snd (load (\<lambda>k. ''c'') (save Map.empty store_abc ''x.json'') ToDoList_init ''x.json''))
     = [task_a, task_b, task_c]"
proof -
  have ok: "priority_ok task_c"
    by (simp add: priority_ok_def task_c_def)
  have oks: "\<forall>u\<in>set (tasks store_abc). priority_ok u"
    by (simp add: store_abc_tasks priority_ok_def task_a_def task_b_def task_c_def)
  from roundtrip [where t = task_c and now_init = "''a''" and now_dflt = "''b''"
      and s = store_abc and clk = "\<lambda>k. ''c''" and fs = Map.empty and filename = "''x.json''"
      and s' = ToDoList_init] reachable_task_c ok oks reachable_store_abc
  show ?thesis by (simp add: store_abc_tasks list_all_iff)
qed

text \<open>
  C2. The specification's \<open>clamp(p, 1, 3)\<close> is 1, 2 or 3 for every integer \<open>p\<close>, with
  \<open>clamp 1 = 1\<close>, \<open>clamp 2 = 2\<close>, \<open>clamp 3 = 3\<close>, \<open>clamp 0 = 1\<close>, \<open>clamp 4 = 3\<close>. For every
  integer priority \<open>p\<close> the constructor succeeds and stores \<open>clamp(p, 1, 3)\<close>, and so does
  \<^verbatim>\<open>edit_task\<close> at a valid index when it is given a priority. A task that \<^verbatim>\<open>from_dict\<close>
  returns for a dictionary with an integer priority or none, every task that the
  operations build from integer priorities and every task of a store that they build
  has its priority in \<open>{1, 2, 3}\<close>.
\<close>

theorem priority_invariant:
  "spec_clamp p 1 3 \<in> {1, 2, 3} \<and>
   spec_clamp 1 1 3 = 1 \<and> spec_clamp 2 1 3 = 2 \<and> spec_clamp 3 1 3 = 3 \<and>
   spec_clamp 0 1 3 = 1 \<and> spec_clamp 4 1 3 = 3 \<and>
   Task_init now ti n (JInt p) a =
     Inr \<lparr> title = ti, note_t = n, priority = JInt (spec_clamp p 1 3), assignee = a,
           done_t = JBool False, created_at = JStr now \<rparr> \<and>
   (0 \<le> index \<and> index < int (length (tasks s)) \<longrightarrow>
      priority (tasks (snd (edit_task s index ti' n' (Some p) a')) ! nat index)
        = JInt (spec_clamp p 1 3)) \<and>
   (int_priority d \<and> from_dict now_init now_dflt d = Inr t \<longrightarrow>
      priority t \<in> {JInt 1, JInt 2, JInt 3}) \<and>
   (reachable_task t' \<longrightarrow> priority t' \<in> {JInt 1, JInt 2, JInt 3}) \<and>
   (reachable s' \<longrightarrow> (\<forall>u\<in>set (tasks s'). priority u \<in> {JInt 1, JInt 2, JInt 3}))"
proof -
  have edit: "priority (tasks (snd (edit_task s index ti' n' (Some p) a')) ! nat index)
      = JInt (spec_clamp p 1 3)"
    if "0 \<le> index" "index < int (length (tasks s))"
  proof -
    from that have "nat index < length (tasks s)" by linarith
    then show ?thesis using that by (simp add: edit_task_in_range)
  qed
  have "int_priority d \<Longrightarrow> from_dict now_init now_dflt d = Inr t
      \<Longrightarrow> priority t \<in> {JInt 1, JInt 2, JInt 3}"
    using from_dict_ok [of d now_init now_dflt t] by (simp only: priority_ok_def)
  moreover have "reachable_task t' \<Longrightarrow> priority t' \<in> {JInt 1, JInt 2, JInt 3}"
    using reachable_task_ok [of t'] by (simp only: priority_ok_def)
  moreover have "reachable s' \<Longrightarrow> \<forall>u\<in>set (tasks s'). priority u \<in> {JInt 1, JInt 2, JInt 3}"
    using reachable_store_ok [of s'] by (simp only: priority_ok_def) blast
  moreover have "spec_clamp 1 1 3 = 1" "spec_clamp 2 1 3 = 2" "spec_clamp 3 1 3 = 3"
    "spec_clamp 0 1 3 = 1" "spec_clamp 4 1 3 = 3"
    by (simp_all add: spec_clamp_def)
  ultimately show ?thesis
    using edit spec_clamp_range [of p] Task_init_int [of now ti n p a] by blast
qed

theorem priority_invariant_witness:
  "(0::int) \<le> 0 \<and> 0 < int (length (tasks store_abc)) \<and>
   priority (tasks (snd (edit_task store_abc 0 None None (Some 0) None)) ! nat 0) = JInt 1 \<and>
   int_priority (JObj [(''title'', JStr ''Call''), (''priority'', JInt 9)]) \<and>
   from_dict ''a'' ''b'' (JObj [(''title'', JStr ''Call''), (''priority'', JInt 9)])
     = Inr \<lparr> title = JStr ''Call'', note_t = JStr '''', priority = JInt 3,
         assignee = JStr ''Unassigned'', done_t = JBool False, created_at = JStr ''b'' \<rparr> \<and>
   reachable_task task_c \<and> priority task_c \<in> {JInt 1, JInt 2, JInt 3} \<and>
   reachable store_abc \<and>
   list_all (\<lambda>u. priority u \<in> {JInt 1, JInt 2, JInt 3}) (tasks store_abc)"
proof -
  let ?data = "[(''title'', JStr ''Call''), (''priority'', JInt 9)]"
  let ?t = "\<lparr> title = JStr ''Call'', note_t = JStr '''', priority = JInt 3,
         assignee = JStr ''Unassigned'', done_t = JBool False, created_at = JStr ''b'' \<rparr>"
  have len: "0 < int (length (tasks store_abc))"
    by (simp add: store_abc_tasks)
  have ip: "int_priority (JObj ?data)"
    by (simp add: get_default_def dict_get_def)
  have "dict_get ?data ''title'' = Some (JStr ''Call'')"
    by (simp add: dict_get_def)
  moreover have "max1_min3 (get_default ?data ''priority'' (JInt 2)) = Inr (JInt 3)"
    by (simp add: get_default_def dict_get_def max1_min3_int spec_clamp_def)
  ultimately have fd: "from_dict ''a'' ''b'' (JObj ?data) = Inr ?t"
    by (simp add: from_dict_value) (simp add: get_default_def dict_get_def)
  have c: "spec_clamp 0 1 3 = 1"
    by (simp add: spec_clamp_def)
  from priority_invariant [where p = 0 and index = 0 and s = store_abc and ti' = None
      and n' = None and a' = None and now_init = "''a''" and now_dflt = "''b''"
      and d = "JObj ?data" and t = ?t and t' = task_c and s' = store_abc]
    len ip fd reachable_task_c reachable_store_abc c
  show ?thesis by (simp add: list_all_iff)
qed

text \<open>
  C3, amended. For every input mapping, \<^verbatim>\<open>from_dict\<close> returns a task if and only if
  the mapping has the key \<^verbatim>\<open>title\<close> and its priority, when it has one, is a number (an
  \<^verbatim>\<open>int\<close>, a \<^verbatim>\<open>bool\<close> or a \<^verbatim>\<open>float\<close>). Without \<^verbatim>\<open>title\<close> it raises \<^verbatim>\<open>KeyError('title')\<close>, the
  specification's MalformedRecord failure, and defaults nothing; with \<^verbatim>\<open>title\<close> and a
  priority that is \<^verbatim>\<open>null\<close>, a string, a list or a dictionary it raises \<^verbatim>\<open>TypeError\<close>.
  Otherwise it returns the task whose \<open>note\<close> is the stored one or \<^verbatim>\<open>""\<close>, whose priority
  is what \<^verbatim>\<open>max(1, min(p, 3))\<close> returns for the stored priority or for 2 (the clamped
  value, for an integer), whose assignee is the stored one or \<^verbatim>\<open>"Unassigned"\<close>, whose
  \<open>done\<close> is the stored one or false, and whose \<open>created_at\<close> is the stored one or the time
  the clock gives when the default is read.

  As the specification has it (success if and only if \<^verbatim>\<open>title\<close> is present), the claim
  fails at the mapping with a title and the priority \<^verbatim>\<open>null\<close>: the counterexample below.
\<close>

theorem from_dict_requires_title:
  "((\<exists>t. from_dict now_init now_dflt (JObj data) = Inr t) \<longleftrightarrow>
      dict_get data ''title'' \<noteq> None \<and> is_num (get_default data ''priority'' (JInt 2))) \<and>
   (dict_get data ''title'' = None \<longrightarrow>
      from_dict now_init now_dflt (JObj data) = Inl (KeyError (JStr ''title''))) \<and>
   (dict_get data ''title'' \<noteq> None \<and> \<not> is_num (get_default data ''priority'' (JInt 2)) \<longrightarrow>
      from_dict now_init now_dflt (JObj data) = Inl TypeError) \<and>
   (\<forall>ti c. dict_get data ''title'' = Some ti \<and>
        max1_min3 (get_default data ''priority'' (JInt 2)) = Inr c \<longrightarrow>
      from_dict now_init now_dflt (JObj data) = Inr
        \<lparr> title = ti,
          note_t = get_default data ''note'' (JStr ''''),
          priority = c,
          assignee = get_default data ''assignee'' (JStr ''Unassigned''),
          done_t = get_default data ''done'' (JBool False),
          created_at = get_default data ''created_at'' (JStr now_dflt) \<rparr>) \<and>
   max1_min3 (JInt p) = Inr (JInt (spec_clamp p 1 3)) \<and>
   (dict_get data ''priority'' = None \<longrightarrow> get_default data ''priority'' (JInt 2) = JInt 2)"
proof -
  have "(\<exists>t. from_dict now_init now_dflt (JObj data) = Inr t) \<longleftrightarrow>
      dict_get data ''title'' \<noteq> None \<and> is_num (get_default data ''priority'' (JInt 2))"
    using from_dict_succeeds_iff [of now_init now_dflt "JObj data"] by simp
  moreover have "dict_get data ''title'' \<noteq> None \<Longrightarrow>
      \<not> is_num (get_default data ''priority'' (JInt 2)) \<Longrightarrow>
      from_dict now_init now_dflt (JObj data) = Inl TypeError"
    using from_dict_bad_priority [of data] by auto
  moreover have "dict_get data ''priority'' = None \<Longrightarrow>
      get_default data ''priority'' (JInt 2) = JInt 2"
    by (simp add: get_default_def)
  ultimately show ?thesis
    using from_dict_no_title [of data now_init now_dflt]
      from_dict_value [of data _ _ now_init now_dflt] max1_min3_int [of p]
    by blast
qed

theorem from_dict_requires_title_witness:
  "from_dict ''a'' ''b'' dict_u = Inl (KeyError (JStr ''title'')) \<and>
   from_dict ''a'' ''b'' dict_n = Inl TypeError \<and>
   from_dict ''a'' ''b'' (JObj [(''title'', JStr ''Call'')])
     = Inr \<lparr> title = JStr ''Call'', note_t = JStr '''', priority = JInt 2,
         assignee = JStr ''Unassigned'', done_t = JBool False, created_at = JStr ''b'' \<rparr>"
proof -
  have u: "dict_get [(''note'', JStr ''n''), (''priority'', JInt 1), (''done'', JBool True)]
      ''title'' = None"
    by (simp add: dict_get_def)
  have n: "dict_get [(''title'', JStr ''x''), (''priority'', JNull)] ''title'' \<noteq> None"
    "\<not> is_num (get_default [(''title'', JStr ''x''), (''priority'', JNull)] ''priority'' (JInt 2))"
    by (simp_all add: dict_get_def get_default_def)
  have c: "dict_get [(''title'', JStr ''Call'')] ''title'' = Some (JStr ''Call'')"
    "max1_min3 (get_default [(''title'', JStr ''Call'')] ''priority'' (JInt 2)) = Inr (JInt 2)"
    by (simp_all add: dict_get_def get_default_def max1_min3_int spec_clamp_def)
  have g: "get_default [(''title'', JStr ''Call'')] k v = (if k = ''title'' then JStr ''Call'' else v)"
    for k v
    by (simp add: dict_get_def get_default_def)
  note w1 = from_dict_requires_title [where now_init = "''a''" and now_dflt = "''b''"
      and data = "[(''note'', JStr ''n''), (''priority'', JInt 1), (''done'', JBool True)]"]
  note w2 = from_dict_requires_title [where now_init = "''a''" and now_dflt = "''b''"
      and data = "[(''title'', JStr ''x''), (''priority'', JNull)]"]
  note w3 = from_dict_requires_title [where now_init = "''a''" and now_dflt = "''b''"
      and data = "[(''title'', JStr ''Call'')]"]
  from w1 u have r1: "from_dict ''a'' ''b'' dict_u = Inl (KeyError (JStr ''title''))"
    unfolding dict_u_def by blast
  from w2 n have r2: "from_dict ''a'' ''b'' dict_n = Inl TypeError"
    unfolding dict_n_def by blast
  from w3 c have "from_dict ''a'' ''b'' (JObj [(''title'', JStr ''Call'')]) = Inr
        \<lparr> title = JStr ''Call'',
          note_t = get_default [(''title'', JStr ''Call'')] ''note'' (JStr ''''),
          priority = JInt 2,
          assignee = get_default [(''title'', JStr ''Call'')] ''assignee'' (JStr ''Unassigned''),
          done_t = get_default [(''title'', JStr ''Call'')] ''done'' (JBool False),
          created_at = get_default [(''title'', JStr ''Call'')] ''created_at'' (JStr ''b'') \<rparr>"
    by blast
  then have r3: "from_dict ''a'' ''b'' (JObj [(''title'', JStr ''Call'')])
     = Inr \<lparr> title = JStr ''Call'', note_t = JStr '''', priority = JInt 2,
         assignee = JStr ''Unassigned'', done_t = JBool False, created_at = JStr ''b'' \<rparr>"
    by (simp add: g)
  from r1 r2 r3 show ?thesis by simp
qed

theorem from_dict_requires_title_counterexample:
  "dict_get [(''title'', JStr ''x''), (''priority'', JNull)] ''title'' = Some (JStr ''x'') \<and>
   from_dict ''a'' ''b'' (JObj [(''title'', JStr ''x''), (''priority'', JNull)]) = Inl TypeError \<and>
   \<not> ((\<exists>t. from_dict ''a'' ''b'' (JObj [(''title'', JStr ''x''), (''priority'', JNull)]) = Inr t)
        \<longleftrightarrow> dict_get [(''title'', JStr ''x''), (''priority'', JNull)] ''title'' \<noteq> None)"
proof -
  have "from_dict ''a'' ''b'' (JObj [(''title'', JStr ''x''), (''priority'', JNull)]) = Inl TypeError"
    using from_dict_dict_n [of "''a''" "''b''"] by (simp add: dict_n_def)
  then show ?thesis by (simp add: dict_get_def)
qed

text \<open>
  C4. For every store and every integer index: \<^verbatim>\<open>remove_task\<close> with \<open>index < 0\<close> or
  \<open>index \<ge> length\<close> (any index, when the store is empty) returns \<open>False\<close> and leaves the
  store as it was. With \<open>0 \<le> index < length\<close> it returns \<open>True\<close>, the store is one task
  shorter, the tasks before \<open>index\<close> keep their positions, and every task after \<open>index\<close>
  moves down by one; so exactly the task at \<open>index\<close> is gone.
\<close>

theorem remove_task_spec:
  "(index < 0 \<or> int (length (tasks s)) \<le> index \<longrightarrow> remove_task s index = (False, s)) \<and>
   (0 \<le> index \<and> index < int (length (tasks s)) \<longrightarrow>
      fst (remove_task s index) = True \<and>
      Suc (length (tasks (snd (remove_task s index)))) = length (tasks s) \<and>
      (\<forall>j. j < nat index \<longrightarrow> tasks (snd (remove_task s index)) ! j = tasks s ! j) \<and>
      (\<forall>j. nat index \<le> j \<and> Suc j < length (tasks s) \<longrightarrow>
         tasks (snd (remove_task s index)) ! j = tasks s ! Suc j))"
proof -
  have out: "remove_task s index = (False, s)"
    if "index < 0 \<or> int (length (tasks s)) \<le> index"
    using that by (auto simp: remove_task_def)
  have inr: "fst (remove_task s index) = True \<and>
      Suc (length (tasks (snd (remove_task s index)))) = length (tasks s) \<and>
      (\<forall>j. j < nat index \<longrightarrow> tasks (snd (remove_task s index)) ! j = tasks s ! j) \<and>
      (\<forall>j. nat index \<le> j \<and> Suc j < length (tasks s) \<longrightarrow>
         tasks (snd (remove_task s index)) ! j = tasks s ! Suc j)"
    if r: "0 \<le> index \<and> index < int (length (tasks s))"
  proof -
    from r have lt: "nat index < length (tasks s)" by linarith
    from r have eq: "remove_task s index =
        (True, s\<lparr>tasks := take (nat index) (tasks s) @ drop (Suc (nat index)) (tasks s)\<rparr>)"
      by (simp add: remove_task_def)
    show ?thesis
      using lt by (simp add: eq nth_remove_before nth_remove_after min_def)
  qed
  from out inr show ?thesis by blast
qed

theorem remove_task_spec_witness:
  "remove_task store_abc (- 1) = (False, store_abc) \<and>
   remove_task store_abc 3 = (False, store_abc) \<and>
   remove_task ToDoList_init 0 = (False, ToDoList_init) \<and>
   fst (remove_task store_abc 1) = True \<and>
   length (tasks (snd (remove_task store_abc 1))) = 2 \<and>
   tasks (snd (remove_task store_abc 1)) ! 0 = task_a \<and>
   tasks (snd (remove_task store_abc 1)) ! 1 = task_c"
proof -
  have len: "length (tasks store_abc) = 3" and len0: "length (tasks ToDoList_init) = 0"
    by (simp_all add: store_abc_tasks ToDoList_init_def)
  note w1 = remove_task_spec [of "- 1" store_abc]
  note w2 = remove_task_spec [of 3 store_abc]
  note w3 = remove_task_spec [of 0 ToDoList_init]
  note w4 = remove_task_spec [of 1 store_abc]
  from w4 len have a: "fst (remove_task store_abc 1) = True"
    and b: "Suc (length (tasks (snd (remove_task store_abc 1)))) = 3"
    and c: "\<forall>j. j < nat 1 \<longrightarrow> tasks (snd (remove_task store_abc 1)) ! j = tasks store_abc ! j"
    and d: "\<forall>j. nat 1 \<le> j \<and> Suc j < 3 \<longrightarrow>
         tasks (snd (remove_task store_abc 1)) ! j = tasks store_abc ! Suc j"
    by simp_all
  from c have c': "tasks (snd (remove_task store_abc 1)) ! 0 = tasks store_abc ! 0" by simp
  from d have d': "tasks (snd (remove_task store_abc 1)) ! 1 = tasks store_abc ! Suc 1" by simp
  from w1 w2 w3 len len0 a b c' d' show ?thesis
    by (simp add: store_abc_tasks)
qed



text \<open>
  C6. For every store and index with \<open>0 \<le> index < length\<close>, \<^verbatim>\<open>edit_task\<close> returns \<open>True\<close>;
  on the task at \<open>index\<close>, each of title, note and assignee is the argument when one is
  given and the old value when the argument is \<^verbatim>\<open>None\<close>, the priority is the clamped
  argument or the old priority, and \<open>done\<close> and \<open>created_at\<close> are the old ones; the store
  keeps its length and every other task. For an index out of range it returns \<open>False\<close>
  and the store is as it was.
\<close>

theorem edit_task_spec:
  "(index < 0 \<or> int (length (tasks s)) \<le> index \<longrightarrow>
      edit_task s index ti n p a = (False, s)) \<and>
   (0 \<le> index \<and> index < int (length (tasks s)) \<longrightarrow>
      (let old = tasks s ! nat index;
           s' = snd (edit_task s index ti n p a);
           new = tasks s' ! nat index
       in fst (edit_task s index ti n p a) = True \<and>
          length (tasks s') = length (tasks s) \<and>
          (\<forall>j. j < length (tasks s) \<and> j \<noteq> nat index \<longrightarrow> tasks s' ! j = tasks s ! j) \<and>
          title new = (case ti of None \<Rightarrow> title old | Some v \<Rightarrow> JStr v) \<and>
          note_t new = (case n of None \<Rightarrow> note_t old | Some v \<Rightarrow> JStr v) \<and>
          priority new = (case p of None \<Rightarrow> priority old | Some v \<Rightarrow> JInt (spec_clamp v 1 3)) \<and>
          assignee new = (case a of None \<Rightarrow> assignee old | Some v \<Rightarrow> JStr v) \<and>
          done_t new = done_t old \<and>
          created_at new = created_at old))"
proof -
  have out: "edit_task s index ti n p a = (False, s)"
    if "index < 0 \<or> int (length (tasks s)) \<le> index"
    using that by (rule edit_task_out_of_range)
  have inr: "(let old = tasks s ! nat index;
           s' = snd (edit_task s index ti n p a);
           new = tasks s' ! nat index
       in fst (edit_task s index ti n p a) = True \<and>
          length (tasks s') = length (tasks s) \<and>
          (\<forall>j. j < length (tasks s) \<and> j \<noteq> nat index \<longrightarrow> tasks s' ! j = tasks s ! j) \<and>
          title new = (case ti of None \<Rightarrow> title old | Some v \<Rightarrow> JStr v) \<and>
          note_t new = (case n of None \<Rightarrow> note_t old | Some v \<Rightarrow> JStr v) \<and>
          priority new = (case p of None \<Rightarrow> priority old | Some v \<Rightarrow> JInt (spec_clamp v 1 3)) \<and>
          assignee new = (case a of None \<Rightarrow> assignee old | Some v \<Rightarrow> JStr v) \<and>
          done_t new = done_t old \<and>
          created_at new = created_at old)"
    if r: "0 \<le> index \<and> index < int (length (tasks s))"
  proof -
    from r have lt: "nat index < length (tasks s)" by linarith
    from r have eq: "edit_task s index ti n p a =
      (True, s\<lparr>tasks := (tasks s)[nat index :=
       \<lparr> title = (case ti of None \<Rightarrow> title (tasks s ! nat index) | Some v \<Rightarrow> JStr v),
         note_t = (case n of None \<Rightarrow> note_t (tasks s ! nat index) | Some v \<Rightarrow> JStr v),
         priority = (case p of None \<Rightarrow> priority (tasks s ! nat index)
                     | Some v \<Rightarrow> JInt (spec_clamp v 1 3)),
         assignee = (case a of None \<Rightarrow> assignee (tasks s ! nat index) | Some v \<Rightarrow> JStr v),
         done_t = done_t (tasks s ! nat index),
         created_at = created_at (tasks s ! nat index) \<rparr>]\<rparr>)"
      by (simp add: edit_task_in_range)
    show ?thesis
      using lt by (simp add: eq Let_def)
  qed
  from out inr show ?thesis by blast
qed

theorem edit_task_spec_witness:
  "edit_task store_abc (- 1) (Some ''x'') None (Some 2) None = (False, store_abc) \<and>
   edit_task store_abc 3 (Some ''x'') None (Some 2) None = (False, store_abc) \<and>
   fst (edit_task store_abc 1 (Some ''Call Ann'') None (Some 7) None) = True \<and>
   length (tasks (snd (edit_task store_abc 1 (Some ''Call Ann'') None (Some 7) None))) = 3 \<and>
   tasks (snd (edit_task store_abc 1 (Some ''Call Ann'') None (Some 7) None)) ! 0 = task_a \<and>
   tasks (snd (edit_task store_abc 1 (Some ''Call Ann'') None (Some 7) None)) ! 1
     = \<lparr> title = JStr ''Call Ann'', note_t = JStr ''about the report'', priority = JInt 3,
         assignee = JStr ''Ann'', done_t = JBool False,
         created_at = JStr ''2024-05-01T10:05:00'' \<rparr> \<and>
   tasks (snd (edit_task store_abc 1 (Some ''Call Ann'') None (Some 7) None)) ! 2 = task_c"
proof -
  let ?e = "edit_task store_abc 1 (Some ''Call Ann'') None (Some 7) None"
  have len: "length (tasks store_abc) = 3"
    by (simp add: store_abc_tasks)
  have c: "spec_clamp 7 1 3 = 3"
    by (simp add: spec_clamp_def)
  note w1 = edit_task_spec [of "- 1" store_abc "Some ''x''" None "Some 2" None]
  note w2 = edit_task_spec [of 3 store_abc "Some ''x''" None "Some 2" None]
  note w3 = edit_task_spec [of 1 store_abc "Some ''Call Ann''" None "Some 7" None]
  from w3 len c have t: "fst ?e = True" and l: "length (tasks (snd ?e)) = 3"
    and o: "\<forall>j. j < 3 \<and> j \<noteq> nat 1 \<longrightarrow> tasks (snd ?e) ! j = tasks store_abc ! j"
    and f: "title (tasks (snd ?e) ! nat 1) = JStr ''Call Ann''"
      "note_t (tasks (snd ?e) ! nat 1) = note_t (tasks store_abc ! nat 1)"
      "priority (tasks (snd ?e) ! nat 1) = JInt 3"
      "assignee (tasks (snd ?e) ! nat 1) = assignee (tasks store_abc ! nat 1)"
      "done_t (tasks (snd ?e) ! nat 1) = done_t (tasks store_abc ! nat 1)"
      "created_at (tasks (snd ?e) ! nat 1) = created_at (tasks store_abc ! nat 1)"
    by (simp_all add: Let_def)
  from o have o0: "tasks (snd ?e) ! 0 = task_a" and o2: "tasks (snd ?e) ! 2 = task_c"
    by (simp_all add: store_abc_tasks)
  from f have f1: "tasks (snd ?e) ! 1 =
        \<lparr> title = JStr ''Call Ann'', note_t = JStr ''about the report'', priority = JInt 3,
          assignee = JStr ''Ann'', done_t = JBool False,
          created_at = JStr ''2024-05-01T10:05:00'' \<rparr>"
    by (cases "tasks (snd ?e) ! 1") (simp add: store_abc_tasks task_b_def)
  from w1 w2 len t l o0 f1 o2 show ?thesis by simp
qed

text \<open>
  C7. For every store, \<^verbatim>\<open>load\<close> of a file name that does not exist raises nothing and
  leaves the store empty, whatever it held.
\<close>

theorem load_missing_file:
  "fs filename = None \<longrightarrow>
     fst (load clk fs s filename) = None \<and> tasks (snd (load clk fs s filename)) = []"
  by (simp add: load_def load_body_def open_read_def)

theorem load_missing_file_witness:
  "fst (load (\<lambda>k. ''c'') Map.empty store_abc ''tasks.json'') = None \<and>
   tasks (snd (load (\<lambda>k. ''c'') Map.empty store_abc ''tasks.json'')) = [] \<and>
   tasks store_abc = [task_a, task_b, task_c]"
  using load_missing_file [of Map.empty "''tasks.json''" "\<lambda>k. ''c''" store_abc]
  by (simp add: store_abc_tasks)

text \<open>
  C8, amended. For every store, \<^verbatim>\<open>load\<close> of an existing file surfaces a failure to the
  caller, and leaves the store exactly as it was before the call, with none of the file's
  records in it, when the file

  \<^item> is no UTF-8 text (\<^verbatim>\<open>UnicodeDecodeError\<close>) or no JSON (\<^verbatim>\<open>JSONDecodeError\<close>);
  \<^item> holds a number, a boolean, \<^verbatim>\<open>null\<close>, a string that is not empty or an object that is
    not empty (\<^verbatim>\<open>TypeError\<close>);
  \<^item> holds an array with an element that \<^verbatim>\<open>from_dict\<close> rejects, a record without \<^verbatim>\<open>title\<close>
    among them: the first such element raises, \<^verbatim>\<open>KeyError('title')\<close> or \<^verbatim>\<open>TypeError\<close>, and it
    is \<^verbatim>\<open>KeyError('title')\<close> when every other element is a record that \<^verbatim>\<open>from_dict\<close> accepts.

  An array of records that \<^verbatim>\<open>from_dict\<close> accepts is loaded whole. A file that holds the
  empty object \<^verbatim>\<open>{}\<close> or the empty string \<^verbatim>\<open>""\<close> is no failure: the loop of line 93 runs
  over nothing and the store is reset to the empty sequence, as for a missing file.

  As the specification has it (every corrupt content surfaces a failure), the claim fails
  at these two contents: the counterexample below.
\<close>

theorem load_malformed_file:
  "(fs filename = Some Undecodable \<longrightarrow> load clk fs s filename = (Some UnicodeDecodeError, s)) \<and>
   (fs filename = Some Unparseable \<longrightarrow> load clk fs s filename = (Some JSONDecodeError, s)) \<and>
   (fs filename = Some (Json v) \<and> loop_raises v \<longrightarrow>
      load clk fs s filename = (Some TypeError, s)) \<and>
   (fs filename = Some (Json (JArr ds)) \<and> (\<exists>d\<in>set ds. \<not> record_ok d) \<longrightarrow>
      load clk fs s filename = (Some (KeyError (JStr ''title'')), s) \<or>
      load clk fs s filename = (Some TypeError, s)) \<and>
   (fs filename = Some (Json (JArr ds)) \<and> (\<exists>d\<in>set ds. lacks_title d) \<longrightarrow>
      load clk fs s filename = (Some (KeyError (JStr ''title'')), s) \<or>
      load clk fs s filename = (Some TypeError, s)) \<and>
   (fs filename = Some (Json (JArr ds)) \<and> (\<exists>d\<in>set ds. lacks_title d) \<and>
      (\<forall>d\<in>set ds. record_ok d \<or> lacks_title d) \<longrightarrow>
      load clk fs s filename = (Some (KeyError (JStr ''title'')), s)) \<and>
   (fs filename = Some (Json (JArr ds)) \<and> (\<forall>d\<in>set ds. record_ok d) \<longrightarrow>
      fst (load clk fs s filename) = None \<and>
      length (tasks (snd (load clk fs s filename))) = length ds) \<and>
   (fs filename = Some (Json (JObj [])) \<or> fs filename = Some (Json (JStr [])) \<longrightarrow>
      load clk fs s filename = (None, s\<lparr>tasks := []\<rparr>))"
proof -
  have a: "load clk fs s filename = (Some (KeyError (JStr ''title'')), s) \<or>
      load clk fs s filename = (Some TypeError, s)"
    if "fs filename = Some (Json (JArr ds))" "\<exists>d\<in>set ds. \<not> record_ok d"
    using that by (rule load_array_fails)
  have b: "load clk fs s filename = (Some (KeyError (JStr ''title'')), s) \<or>
      load clk fs s filename = (Some TypeError, s)"
    if "fs filename = Some (Json (JArr ds))" "\<exists>d\<in>set ds. lacks_title d"
  proof -
    from that(2) have "\<exists>d\<in>set ds. \<not> record_ok d"
      using lacks_title_not_ok by blast
    with that(1) show ?thesis by (rule load_array_fails)
  qed
  have c: "load clk fs s filename = (None, s\<lparr>tasks := []\<rparr>)"
    if "fs filename = Some (Json (JObj [])) \<or> fs filename = Some (Json (JStr []))"
    using that load_empty_iterable [of fs filename _ clk s] by blast
  from a b c show ?thesis
    using load_not_text [of fs filename clk s] load_loop_raises [of fs filename v clk s]
      load_array_no_title [of fs filename ds clk s] load_array_succeeds [of fs filename ds clk s]
    by blast
qed

theorem load_malformed_file_witness:
  "load (\<lambda>k. ''c'') [''tasks.json'' \<mapsto> Undecodable] store_abc ''tasks.json''
     = (Some UnicodeDecodeError, store_abc) \<and>
   load (\<lambda>k. ''c'') [''tasks.json'' \<mapsto> Unparseable] store_abc ''tasks.json''
     = (Some JSONDecodeError, store_abc) \<and>
   load (\<lambda>k. ''c'') [''tasks.json'' \<mapsto> Json (JInt 7)] store_abc ''tasks.json''
     = (Some TypeError, store_abc) \<and>
   load (\<lambda>k. ''c'') [''tasks.json'' \<mapsto> Json (JObj [(''title'', JStr ''x'')])] store_abc ''tasks.json''
     = (Some TypeError, store_abc) \<and>
   load (\<lambda>k. ''c'') [''tasks.json'' \<mapsto> Json (JArr [to_dict task_a, dict_u, to_dict task_b])]
     store_abc ''tasks.json''
     = (Some (KeyError (JStr ''title'')), store_abc) \<and>
   fst (load (\<lambda>k. ''c'') [''tasks.json'' \<mapsto> Json (JArr [to_dict task_a, to_dict task_b])]
     store_abc ''tasks.json'') = None \<and>
   length (tasks (snd (load (\<lambda>k. ''c'')
     [''tasks.json'' \<mapsto> Json (JArr [to_dict task_a, to_dict task_b])] store_abc ''tasks.json'')))
     = 2 \<and>
   tasks store_abc = [task_a, task_b, task_c]"
proof -
  have ok: "record_ok (to_dict task_a)" "record_ok (to_dict task_b)"
    by (simp_all add: to_dict_def dict_get_def get_default_def task_a_def task_b_def)
  have u: "lacks_title dict_u"
    by (simp add: dict_u_def dict_get_def)
  note w1 = load_malformed_file [where fs = "[''tasks.json'' \<mapsto> Undecodable]"
      and filename = "''tasks.json''" and clk = "\<lambda>k. ''c''" and s = store_abc]
  note w2 = load_malformed_file [where fs = "[''tasks.json'' \<mapsto> Unparseable]"
      and filename = "''tasks.json''" and clk = "\<lambda>k. ''c''" and s = store_abc]
  note w3 = load_malformed_file [where fs = "[''tasks.json'' \<mapsto> Json (JInt 7)]"
      and filename = "''tasks.json''" and v = "JInt 7" and clk = "\<lambda>k. ''c''" and s = store_abc]
  note w4 = load_malformed_file [where fs = "[''tasks.json'' \<mapsto> Json (JObj [(''title'', JStr ''x'')])]"
      and filename = "''tasks.json''" and v = "JObj [(''title'', JStr ''x'')]"
      and clk = "\<lambda>k. ''c''" and s = store_abc]
  note w5 = load_malformed_file [where
      fs = "[''tasks.json'' \<mapsto> Json (JArr [to_dict task_a, dict_u, to_dict task_b])]"
      and filename = "''tasks.json''" and ds = "[to_dict task_a, dict_u, to_dict task_b]"
      and clk = "\<lambda>k. ''c''" and s = store_abc]
  note w6 = load_malformed_file [where
      fs = "[''tasks.json'' \<mapsto> Json (JArr [to_dict task_a, to_dict task_b])]"
      and filename = "''tasks.json''" and ds = "[to_dict task_a, to_dict task_b]"
      and clk = "\<lambda>k. ''c''" and s = store_abc]
  from w1 have r1: "load (\<lambda>k. ''c'') [''tasks.json'' \<mapsto> Undecodable] store_abc ''tasks.json''
     = (Some UnicodeDecodeError, store_abc)" by simp
  from w2 have r2: "load (\<lambda>k. ''c'') [''tasks.json'' \<mapsto> Unparseable] store_abc ''tasks.json''
     = (Some JSONDecodeError, store_abc)" by simp
  from w3 have r3: "load (\<lambda>k. ''c'') [''tasks.json'' \<mapsto> Json (JInt 7)] store_abc ''tasks.json''
     = (Some TypeError, store_abc)" by simp
  from w4 have r4: "load (\<lambda>k. ''c'') [''tasks.json'' \<mapsto> Json (JObj [(''title'', JStr ''x'')])]
     store_abc ''tasks.json'' = (Some TypeError, store_abc)" by simp
  from w5 ok u have r5: "load (\<lambda>k. ''c'')
     [''tasks.json'' \<mapsto> Json (JArr [to_dict task_a, dict_u, to_dict task_b])]
     store_abc ''tasks.json'' = (Some (KeyError (JStr ''title'')), store_abc)" by simp
  from w6 ok have r6: "fst (load (\<lambda>k. ''c'')
     [''tasks.json'' \<mapsto> Json (JArr [to_dict task_a, to_dict task_b])]
     store_abc ''tasks.json'') = None \<and>
   length (tasks (snd (load (\<lambda>k. ''c'')
     [''tasks.json'' \<mapsto> Json (JArr [to_dict task_a, to_dict task_b])] store_abc ''tasks.json'')))
     = 2" by simp
  from r1 r2 r3 r4 r5 r6 show ?thesis by (simp add: store_abc_tasks)
qed

theorem load_malformed_file_counterexample:
  "load (\<lambda>k. ''c'') [''tasks.json'' \<mapsto> Json (JObj [])] store_abc ''tasks.json''
     = (None, store_abc\<lparr>tasks := []\<rparr>) \<and>
   load (\<lambda>k. ''c'') [''tasks.json'' \<mapsto> Json (JStr [])] store_abc ''tasks.json''
     = (None, store_abc\<lparr>tasks := []\<rparr>) \<and>
   tasks store_abc = [task_a, task_b, task_c]"
  by (simp add: load_empty_iterable store_abc_tasks)

text \<open>
  C9. End to end, for any clock, file system and file name: \<^verbatim>\<open>Task("Buy milk", priority=5)\<close>
  is constructed, and after \<^verbatim>\<open>add_task\<close> of it on a fresh store the stored priority is 3;
  after \<^verbatim>\<open>save\<close> to the file and \<^verbatim>\<open>load\<close> of it into a new store, nothing is raised and the
  store holds one task, which displays as
  \<^verbatim>\<open>[ ] Buy milk (Priority: Low, Assignee: Unassigned)\<close>.
\<close>

theorem end_to_end:
  "\<exists>t. Task_init now (JStr ''Buy milk'') default_note (JInt 5) default_assignee = Inr t \<and>
     (let s = add_task ToDoList_init t;
          r = load clk (save fs s filename) ToDoList_init filename
      in map priority (tasks s) = [JInt 3] \<and>
         fst r = None \<and>
         map (display str_of) (tasks (snd r))
           = [Inr ''[ ] Buy milk (Priority: Low, Assignee: Unassigned)''])"
proof -
  let ?t = "\<lparr> title = JStr ''Buy milk'', note_t = JStr '''', priority = JInt 3,
      assignee = JStr ''Unassigned'', done_t = JBool False, created_at = JStr now \<rparr>"
  let ?s = "add_task ToDoList_init ?t"
  have i: "Task_init now (JStr ''Buy milk'') default_note (JInt 5) default_assignee = Inr ?t"
    by (simp add: Task_init_int spec_clamp_def default_note_def default_assignee_def)
  have ts: "tasks ?s = [?t]"
    by (simp add: add_task_def ToDoList_init_def)
  have ok: "priority_ok ?t"
    by (simp add: priority_ok_def)
  have l: "load clk (save fs ?s filename) ToDoList_init filename = (None, ToDoList_init\<lparr>tasks := [?t]\<rparr>)"
    using ok by (simp add: load_save ts)
  have d: "display str_of ?t = Inr ''[ ] Buy milk (Priority: Low, Assignee: Unassigned)''"
    by (simp add: display_def priority_labels_def format_value_def)
  show ?thesis
    by (rule exI [of _ ?t]) (simp add: Let_def i l ts d)
qed

text \<open>
  C10, amended. \<^verbatim>\<open>__str__\<close> returns a string exactly when the priority equals 1, 2 or
  3, the keys of its label dictionary; on any other priority the lookup raises. Hence it
  raises nothing on any task that the operations build from integer priorities (the
  constructor and \<^verbatim>\<open>edit_task\<close> given an \<^verbatim>\<open>int\<close>, \<^verbatim>\<open>from_dict\<close> and \<^verbatim>\<open>load\<close> given records whose
  priority is an integer or absent; marking), nor on any task of a store they build.

  As the specification has it (every task reachable through deserialisation), the claim
  fails at the record with the priority 2.5: \<^verbatim>\<open>max(1, min(2.5, 3))\<close> is 2.5, \<^verbatim>\<open>from_dict\<close> and \<^verbatim>\<open>load\<close> store it, and
  the lookup raises \<^verbatim>\<open>KeyError(2.5)\<close>: the counterexample below.
\<close>

theorem display_total:
  "((\<exists>str. display str_of t = Inr str) \<longleftrightarrow> key_int (priority t) \<in> {Some 1, Some 2, Some 3}) \<and>
   (reachable_task t \<longrightarrow> (\<exists>str. display str_of t = Inr str)) \<and>
   (reachable s \<longrightarrow> (\<forall>u\<in>set (tasks s). \<exists>str. display str_of u = Inr str))"
proof -
  have "reachable_task t \<Longrightarrow> \<exists>str. display str_of t = Inr str"
    using reachable_task_ok [of t] priority_ok_key [of t]
    by (simp only: display_total_iff)
  moreover have "reachable s \<Longrightarrow> \<forall>u\<in>set (tasks s). \<exists>str. display str_of u = Inr str"
    using reachable_store_ok [of s] priority_ok_key
    by (simp only: display_total_iff) blast
  ultimately show ?thesis
    using display_total_iff [of str_of t] by blast
qed

theorem display_total_witness:
  "reachable_task task_c \<and>
   display str_q task_c = Inr (''['' @ check_mark @ ''] Pay rent (Priority: High, Assignee: Ann)'') \<and>
   reachable store_abc \<and>
   list_all (\<lambda>u. \<exists>str. display str_q u = Inr str) (tasks store_abc) \<and>
   display str_q (task_a\<lparr>priority := JInt 7\<rparr>) = Inl (KeyError (JInt 7))"
proof -
  have d: "display str_q task_c = Inr (''['' @ check_mark @ ''] Pay rent (Priority: High, Assignee: Ann)'')"
    by (simp add: task_c_def display_def priority_labels_def format_value_def)
  have bad: "display str_q (task_a\<lparr>priority := JInt 7\<rparr>) = Inl (KeyError (JInt 7))"
    by (simp add: task_a_def display_def priority_labels_def)
  from display_total [of str_q task_c store_abc] reachable_task_c reachable_store_abc d bad
  show ?thesis by (simp add: list_all_iff)
qed

theorem display_total_counterexample:
  "from_dict ''a'' ''b'' (JObj [(''title'', JStr ''x''), (''priority'', JFloat (Finite (5 / 2)))])
     = Inr task_f \<and>
   priority task_f = JFloat (Finite (5 / 2)) \<and>
   display str_q task_f = Inl (KeyError (JFloat (Finite (5 / 2)))) \<and>
   load (\<lambda>k. ''b'')
     [''tasks.json'' \<mapsto>
        Json (JArr [JObj [(''title'', JStr ''x''), (''priority'', JFloat (Finite (5 / 2)))]])]
     ToDoList_init ''tasks.json''
     = (None, ToDoList_init\<lparr>tasks := [task_f]\<rparr>)"
proof -
  have f: "from_dict ''a'' ''b'' (JObj [(''title'', JStr ''x''), (''priority'', JFloat (Finite (5 / 2)))])
     = Inr task_f"
    using from_dict_dict_f [of "''a''"] by (simp add: dict_f_def)
  have p: "priority task_f = JFloat (Finite (5 / 2))"
    by (simp add: task_f_def)
  have d: "display str_q task_f = Inl (KeyError (JFloat (Finite (5 / 2))))"
    by (simp add: task_f_def display_def)
  have "load (\<lambda>k. ''b'') [''tasks.json'' \<mapsto> Json (JArr [dict_f])] ToDoList_init ''tasks.json''
     = (None, ToDoList_init\<lparr>tasks := [task_f]\<rparr>)"
    by (simp add: load_def load_body_json from_dict_dict_f)
  then have l: "load (\<lambda>k. ''b'')
     [''tasks.json'' \<mapsto>
        Json (JArr [JObj [(''title'', JStr ''x''), (''priority'', JFloat (Finite (5 / 2)))]])]
     ToDoList_init ''tasks.json''
     = (None, ToDoList_init\<lparr>tasks := [task_f]\<rparr>)"
    by (simp add: dict_f_def)
  from f p d l show ?thesis by blast
qed

end
